theory Spec2Isabelle
  imports Main
begin

section \<open>JavaScript strings\<close>

text \<open>
  The server works on JavaScript strings. They are modelled as HOL strings, whose
  characters are the code units 0 to 255 (ISO 8859-1). On these, \<open>toLowerCase\<close> maps
  \<open>A\<close> to \<open>Z\<close> (65 to 90) and the accented capitals 192 to 222, the multiplication sign
  215 apart, to the code unit 32 above, and leaves every other code unit as it is.
  \<open>includes\<close> is the substring test of \<open>String.prototype.includes\<close>; it is named
  \<open>includesStr\<close> here because \<open>includes\<close> is a keyword of Isabelle.
\<close>

definition toLowerCaseChar :: "char \<Rightarrow> char" where
  "toLowerCaseChar c =
     (let n = (of_char c :: nat)
      in if (65 \<le> n \<and> n \<le> 90) \<or> (192 \<le> n \<and> n \<le> 222 \<and> n \<noteq> 215)
         then char_of (n + 32) else c)"

definition toLowerCase :: "string \<Rightarrow> string" where
  "toLowerCase s = map toLowerCaseChar s"

fun startsWith :: "string \<Rightarrow> string \<Rightarrow> bool" where
  "startsWith s [] = True"
| "startsWith [] (p # ps) = False"
| "startsWith (c # cs) (p # ps) = (c = p \<and> startsWith cs ps)"

fun includesStr :: "string \<Rightarrow> string \<Rightarrow> bool" where
  "includesStr [] sub = startsWith [] sub"
| "includesStr (c # cs) sub = (startsWith (c # cs) sub \<or> includesStr cs sub)"

section \<open>The mock analysis and the mock answers (server/routes.ts)\<close>

text \<open>
  Risk levels are the strings \<open>low\<close>, \<open>medium\<close> and \<open>high\<close>, as in the source. The
  fields of a record carry the name of their record as a prefix, since several tables of
  the schema share field names (\<open>id\<close>, \<open>contractId\<close>, \<open>riskScore\<close>).
\<close>

record FullAnalysis =
  fa_riskLevel :: string
  fa_riskReason :: string
  fa_suggestions :: string

record AnalysisResult =
  ar_summary :: "string list"
  ar_riskyClauseIndices :: "int list"
  ar_fullAnalysis :: FullAnalysis
  ar_riskScore :: string

definition hasHighRisk :: "string \<Rightarrow> bool" where
  "hasHighRisk text =
     (includesStr (toLowerCase text) ''termination'' \<or> includesStr (toLowerCase text) ''compete'')"

definition hasMediumRisk :: "string \<Rightarrow> bool" where
  "hasMediumRisk text =
     (includesStr (toLowerCase text) ''payment'' \<or> includesStr (toLowerCase text) ''liability'')"

definition mockSummary :: "string list" where
  "mockSummary =
     [''Contract duration is 12 months with automatic renewal unless terminated with 30 days notice'',
      ''Payment terms require invoice payment within 30 days'',
      ''Broadly worded indemnification clause places significant burden on your company'',
      ''Non-compete clause is excessively broad and may not be enforceable in all jurisdictions'',
      ''Confidentiality provisions expire 3 years after termination'',
      ''Intellectual property ownership assigns all work product to client without limitation'']"

definition mockRiskReason :: string where
  "mockRiskReason =
     ''This contract has some concerning clauses that place undue burden on one party''"

definition mockSuggestions :: string where
  "mockSuggestions = ''Consider negotiating the indemnification and non-compete clauses''"

definition analyzeContract :: "string \<Rightarrow> string \<Rightarrow> AnalysisResult" where
  "analyzeContract text contractType =
     (let riskScore = (if hasHighRisk text then ''high''
                       else if hasMediumRisk text then ''medium'' else ''low'');
          riskyClauseIndices = (if hasHighRisk text then [0, 3]
                                else if hasMediumRisk text then [1] else [])
      in \<lparr> ar_summary = mockSummary,
           ar_riskyClauseIndices = riskyClauseIndices,
           ar_fullAnalysis = \<lparr> fa_riskLevel = riskScore,
                                fa_riskReason = mockRiskReason,
                                fa_suggestions = mockSuggestions \<rparr>,
           ar_riskScore = riskScore \<rparr>)"

definition answerTermination :: string where
  "answerTermination = ''Yes, this contract can be terminated early in several ways. According to Section 8.1, either party may terminate with 30 days written notice. Additionally, Section 8.2 allows for immediate termination if there's a material breach that remains uncured for 15 business days after written notification.''"

definition answerConfidentiality :: string where
  "answerConfidentiality = ''According to Section 11.3 of the contract, the confidentiality obligations survive for 3 years after termination. During this period, both parties must continue to protect confidential information as defined in the agreement. Upon request, each party must either return or destroy all confidential information in their possession.''"

definition answerPayment :: string where
  "answerPayment = ''The payment terms are outlined in Section 5. Client must pay all invoices within 30 days of receipt. Late payments accrue interest at a rate of 1.5% per month. Any disputed charges must be raised within 15 days of the invoice date.''"

definition answerLiability :: string where
  "answerLiability = ''The contract limits liability in Section 9. Neither party is liable for indirect, consequential, or punitive damages. Each party's total liability is capped at the amount paid under the agreement in the 12 months preceding the claim. These limitations don't apply to breaches of confidentiality or intellectual property provisions.''"

definition answerDefault :: string where
  "answerDefault = ''I'd need to analyze that specific aspect of the contract more carefully. The contract does contain various provisions covering termination, confidentiality, payment terms, intellectual property, and liability. Could you specify which section or topic you're most interested in?''"

definition answerContractQuestion :: "int \<Rightarrow> string \<Rightarrow> string" where
  "answerContractQuestion contractId question =
     (if includesStr (toLowerCase question) ''terminate''
         \<or> includesStr (toLowerCase question) ''termination'' then answerTermination
      else if includesStr (toLowerCase question) ''confidential''
         \<or> includesStr (toLowerCase question) ''confidentiality'' then answerConfidentiality
      else if includesStr (toLowerCase question) ''payment''
         \<or> includesStr (toLowerCase question) ''invoice'' then answerPayment
      else if includesStr (toLowerCase question) ''liability''
         \<or> includesStr (toLowerCase question) ''damages'' then answerLiability
      else answerDefault)"

section \<open>The schema (shared/schema.ts)\<close>

text \<open>
  A row type of the schema is a record; a nullable column is an option. The insert types
  are the rows without the columns the storage fills in. A timestamp is the string that
  represents it. \<open>user_riskScore\<close> is not a column of the users table: it is the extra
  property that \<open>updateUser\<close> merges into a user object when it is handed one (an absent
  property is \<open>None\<close>).
\<close>

record User =
  user_id :: int
  user_email :: string
  user_password :: string
  user_firstName :: "string option"
  user_lastName :: "string option"
  user_company :: "string option"
  user_planType :: "string option"
  user_apiKey :: "string option"
  user_createdAt :: "string option"
  user_riskScore :: "string option"

text \<open>\<open>Partial<User>\<close>: every property may be absent (\<open>None\<close>).\<close>

record UserData =
  ud_id :: "int option"
  ud_email :: "string option"
  ud_password :: "string option"
  ud_firstName :: "string option option"
  ud_lastName :: "string option option"
  ud_company :: "string option option"
  ud_planType :: "string option option"
  ud_apiKey :: "string option option"
  ud_createdAt :: "string option option"
  ud_riskScore :: "string option"

record InsertContract =
  ic_userId :: int
  ic_name :: string
  ic_fileType :: string
  ic_originalText :: string
  ic_contractType :: "string option"
  ic_riskScore :: string

record Contract =
  contract_id :: int
  contract_userId :: int
  contract_name :: string
  contract_fileType :: string
  contract_originalText :: string
  contract_contractType :: "string option"
  contract_riskScore :: string
  contract_uploadedAt :: "string option"

record InsertAnalysis =
  ia_contractId :: int
  ia_summary :: "string list"
  ia_riskyClauseIndices :: "int list"
  ia_fullAnalysis :: FullAnalysis

record Analysis =
  analysis_id :: int
  analysis_contractId :: int
  analysis_summary :: "string list"
  analysis_riskyClauseIndices :: "int list"
  analysis_fullAnalysis :: FullAnalysis

record InsertRiskyClause =
  irc_analysisId :: int
  irc_clauseIndex :: int
  irc_clauseText :: string
  irc_riskLevel :: string
  irc_explanation :: string
  irc_suggestion :: "string option"

record RiskyClause =
  rc_id :: int
  rc_analysisId :: int
  rc_clauseIndex :: int
  rc_clauseText :: string
  rc_riskLevel :: string
  rc_explanation :: string
  rc_suggestion :: "string option"

record SavedClause =
  sc_id :: int
  sc_userId :: int
  sc_clauseType :: string
  sc_tone :: string
  sc_content :: string
  sc_createdAt :: "string option"

datatype Role = user | assistant

record Message =
  msg_id :: string
  msg_role :: Role
  msg_content :: string
  msg_timestamp :: string

record InsertConversation =
  icv_userId :: int
  icv_contractId :: int
  icv_messages :: "Message list"

record Conversation =
  conv_id :: int
  conv_userId :: int
  conv_contractId :: int
  conv_messages :: "Message list"
  conv_createdAt :: "string option"
  conv_updatedAt :: "string option"

section \<open>The in-memory storage (server/storage.ts, class MemStorage)\<close>

text \<open>
  \<open>MemStorage\<close> is the implementation of the interface \<open>IStorage\<close> that the repository
  holds in full: every operation is a read or a write of a \<open>Map\<close>. (The other
  implementation, \<open>DatabaseStorage\<close>, hands each operation to a PostgreSQL database.)
  The routes are modelled over \<open>MemStorage\<close>, one request after the other.

  A JavaScript \<open>Map\<close> keeps its entries in insertion order, and \<open>set\<close> on a key that is
  present replaces the value where it stands. It is an association list here, so that
  \<open>values()\<close> lists the entries in the order the source iterates them.
\<close>

type_synonym 'v JsMap = "(int \<times> 'v) list"

fun Map_get :: "'v JsMap \<Rightarrow> int \<Rightarrow> 'v option" where
  "Map_get [] k = None"
| "Map_get ((k', v) # m) k = (if k' = k then Some v else Map_get m k)"

fun Map_set :: "'v JsMap \<Rightarrow> int \<Rightarrow> 'v \<Rightarrow> 'v JsMap" where
  "Map_set [] k v = [(k, v)]"
| "Map_set ((k', v') # m) k v =
     (if k' = k then (k, v) # m else (k', v') # Map_set m k v)"

definition Map_values :: "'v JsMap \<Rightarrow> 'v list" where
  "Map_values m = map snd m"

text \<open>\<open>Array.prototype.find\<close>: the first element that satisfies the predicate.\<close>

fun findFirst :: "('a \<Rightarrow> bool) \<Rightarrow> 'a list \<Rightarrow> 'a option" where
  "findFirst P [] = None"
| "findFirst P (x # xs) = (if P x then Some x else findFirst P xs)"

record MemStorage =
  users :: "User JsMap"
  contracts :: "Contract JsMap"
  analyses :: "Analysis JsMap"
  riskyClauses :: "RiskyClause JsMap"
  savedClauses :: "SavedClause JsMap"
  conversations :: "Conversation JsMap"
  nextUserId :: int
  nextContractId :: int
  nextAnalysisId :: int
  nextRiskyClauseId :: int
  nextSavedClauseId :: int
  nextConversationId :: int

definition getUser :: "MemStorage \<Rightarrow> int \<Rightarrow> User option" where
  "getUser s i = Map_get (users s) i"

definition mergeOpt :: "'a \<Rightarrow> 'a option \<Rightarrow> 'a" where
  "mergeOpt old new = (case new of None \<Rightarrow> old | Some v \<Rightarrow> v)"

text \<open>The object spread \<open>{ ...user, ...userData }\<close>: a property of \<open>userData\<close> wins.\<close>

definition spreadUser :: "User \<Rightarrow> UserData \<Rightarrow> User" where
  "spreadUser u d =
     \<lparr> user_id = mergeOpt (user_id u) (ud_id d),
       user_email = mergeOpt (user_email u) (ud_email d),
       user_password = mergeOpt (user_password u) (ud_password d),
       user_firstName = mergeOpt (user_firstName u) (ud_firstName d),
       user_lastName = mergeOpt (user_lastName u) (ud_lastName d),
       user_company = mergeOpt (user_company u) (ud_company d),
       user_planType = mergeOpt (user_planType u) (ud_planType d),
       user_apiKey = mergeOpt (user_apiKey u) (ud_apiKey d),
       user_createdAt = mergeOpt (user_createdAt u) (ud_createdAt d),
       user_riskScore = (case ud_riskScore d of None \<Rightarrow> user_riskScore u | Some v \<Rightarrow> Some v) \<rparr>"

definition updateUser :: "MemStorage \<Rightarrow> int \<Rightarrow> UserData \<Rightarrow> MemStorage \<times> User option" where
  "updateUser s i userData =
     (case getUser s i of
        None \<Rightarrow> (s, None)
      | Some u \<Rightarrow>
          (let updatedUser = spreadUser u userData
           in (s\<lparr> users := Map_set (users s) i updatedUser \<rparr>, Some updatedUser)))"

definition getContract :: "MemStorage \<Rightarrow> int \<Rightarrow> Contract option" where
  "getContract s i = Map_get (contracts s) i"

text \<open>\<open>now\<close> is the value of \<open>new Date()\<close> at the call.\<close>

definition createContract :: "MemStorage \<Rightarrow> string \<Rightarrow> InsertContract \<Rightarrow> MemStorage \<times> Contract" where
  "createContract s now insertContract =
     (let i = nextContractId s;
          contract = \<lparr> contract_id = i,
                       contract_userId = ic_userId insertContract,
                       contract_name = ic_name insertContract,
                       contract_fileType = ic_fileType insertContract,
                       contract_originalText = ic_originalText insertContract,
                       contract_contractType = ic_contractType insertContract,
                       contract_riskScore = ic_riskScore insertContract,
                       contract_uploadedAt = Some now \<rparr>
      in (s\<lparr> nextContractId := i + 1, contracts := Map_set (contracts s) i contract \<rparr>,
          contract))"

definition getAnalysis :: "MemStorage \<Rightarrow> int \<Rightarrow> Analysis option" where
  "getAnalysis s i = Map_get (analyses s) i"

definition getAnalysisByContractId :: "MemStorage \<Rightarrow> int \<Rightarrow> Analysis option" where
  "getAnalysisByContractId s contractId =
     findFirst (\<lambda>analysis. analysis_contractId analysis = contractId) (Map_values (analyses s))"

definition createAnalysis :: "MemStorage \<Rightarrow> InsertAnalysis \<Rightarrow> MemStorage \<times> Analysis" where
  "createAnalysis s insertAnalysis =
     (let i = nextAnalysisId s;
          analysis = \<lparr> analysis_id = i,
                       analysis_contractId = ia_contractId insertAnalysis,
                       analysis_summary = ia_summary insertAnalysis,
                       analysis_riskyClauseIndices = ia_riskyClauseIndices insertAnalysis,
                       analysis_fullAnalysis = ia_fullAnalysis insertAnalysis \<rparr>
      in (s\<lparr> nextAnalysisId := i + 1, analyses := Map_set (analyses s) i analysis \<rparr>,
          analysis))"

definition getRiskyClausesByAnalysisId :: "MemStorage \<Rightarrow> int \<Rightarrow> RiskyClause list" where
  "getRiskyClausesByAnalysisId s analysisId =
     filter (\<lambda>clause. rc_analysisId clause = analysisId) (Map_values (riskyClauses s))"

definition createRiskyClause :: "MemStorage \<Rightarrow> InsertRiskyClause \<Rightarrow> MemStorage \<times> RiskyClause" where
  "createRiskyClause s insertClause =
     (let i = nextRiskyClauseId s;
          clause = \<lparr> rc_id = i,
                     rc_analysisId = irc_analysisId insertClause,
                     rc_clauseIndex = irc_clauseIndex insertClause,
                     rc_clauseText = irc_clauseText insertClause,
                     rc_riskLevel = irc_riskLevel insertClause,
                     rc_explanation = irc_explanation insertClause,
                     rc_suggestion = irc_suggestion insertClause \<rparr>
      in (s\<lparr> nextRiskyClauseId := i + 1, riskyClauses := Map_set (riskyClauses s) i clause \<rparr>,
          clause))"

definition getConversation :: "MemStorage \<Rightarrow> int \<Rightarrow> Conversation option" where
  "getConversation s i = Map_get (conversations s) i"

definition createConversation ::
  "MemStorage \<Rightarrow> string \<Rightarrow> InsertConversation \<Rightarrow> MemStorage \<times> Conversation" where
  "createConversation s timestamp insertConversation =
     (let i = nextConversationId s;
          conversation = \<lparr> conv_id = i,
                           conv_userId = icv_userId insertConversation,
                           conv_contractId = icv_contractId insertConversation,
                           conv_messages = icv_messages insertConversation,
                           conv_createdAt = Some timestamp,
                           conv_updatedAt = Some timestamp \<rparr>
      in (s\<lparr> nextConversationId := i + 1,
              conversations := Map_set (conversations s) i conversation \<rparr>,
          conversation))"

definition updateConversation ::
  "MemStorage \<Rightarrow> string \<Rightarrow> int \<Rightarrow> Message list \<Rightarrow> MemStorage \<times> Conversation option" where
  "updateConversation s timestamp i messages =
     (case getConversation s i of
        None \<Rightarrow> (s, None)
      | Some conversation \<Rightarrow>
          (let updatedConversation =
                 conversation\<lparr> conv_messages := messages, conv_updatedAt := Some timestamp \<rparr>
           in (s\<lparr> conversations := Map_set (conversations s) i updatedConversation \<rparr>,
               Some updatedConversation)))"

section \<open>The routes (server/routes.ts)\<close>

text \<open>
  A handler takes the storage and the request and returns the storage and the response.
  A request body is the record of the properties the handler reads; a property that is
  absent is \<open>None\<close>. \<open>contractId\<close> is a JSON integer, which \<open>parseInt\<close> returns as it is;
  \<open>text\<close> and \<open>question\<close> are JSON strings. A path parameter is the result of \<open>parseInt\<close>
  on it, \<open>None\<close> when that is \<open>NaN\<close>. With these inputs and the in-memory storage no
  statement of a handler throws, so the \<open>catch\<close> branch (status 500) is not reached.
\<close>

datatype Body =
    MessageBody string
  | AnalysisBody Analysis
  | RiskyClausesBody "RiskyClause list"
  | ConversationBody "Conversation option"
  | AnswerBody string

record Response =
  res_status :: nat
  res_body :: Body

definition respond :: "nat \<Rightarrow> Body \<Rightarrow> Response" where
  "respond code b = \<lparr> res_status = code, res_body = b \<rparr>"

record AnalyzeBody =
  ab_contractId :: "int option"
  ab_text :: "string option"
  ab_contractType :: "string option"

text \<open>
  The texts of the two mock clauses. The route and the demo data of the storage hold the
  same six strings, so each is one constant here.
\<close>

record ClauseInfo =
  ci_clauseIndex :: int
  ci_clauseText :: string
  ci_riskLevel :: string
  ci_explanation :: string
  ci_suggestion :: string

definition nonCompeteText :: string where
  "nonCompeteText = ''Contractor agrees not to engage in any business activity competitive with Client's business for a period of five (5) years in any geographic location where Client conducts business.''"

definition nonCompeteExplanation :: string where
  "nonCompeteExplanation = ''This non-compete clause is overly broad in both duration and geographic scope, making it potentially unenforceable in many jurisdictions.''"

definition nonCompeteSuggestion :: string where
  "nonCompeteSuggestion = ''Contractor agrees not to engage in substantially similar business activity competitive with Client's core business for a period of one (1) year limited to regions where Contractor directly provided services to Client.''"

definition indemnifyText :: string where
  "indemnifyText = ''Contractor shall indemnify, defend, and hold harmless Client from any and all claims, damages, liabilities, costs, and expenses, including reasonable attorneys' fees arising from or relating to Contractor's services.''"

definition indemnifyExplanation :: string where
  "indemnifyExplanation = ''This indemnification clause is broad and doesn't limit the contractor's liability to third-party claims or direct damages.''"

definition indemnifySuggestion :: string where
  "indemnifySuggestion = ''Contractor shall indemnify, defend, and hold harmless Client from any third-party claims, damages, liabilities, costs, and expenses, including reasonable attorneys' fees arising directly from Contractor's gross negligence or willful misconduct in performing the services.''"

definition mockRiskyClauses :: "ClauseInfo list" where
  "mockRiskyClauses =
     [\<lparr> ci_clauseIndex = 0,
        ci_clauseText = nonCompeteText,
        ci_riskLevel = ''high'',
        ci_explanation = nonCompeteExplanation,
        ci_suggestion = nonCompeteSuggestion \<rparr>,
      \<lparr> ci_clauseIndex = 3,
        ci_clauseText = indemnifyText,
        ci_riskLevel = ''medium'',
        ci_explanation = indemnifyExplanation,
        ci_suggestion = indemnifySuggestion \<rparr>]"

text \<open>The object \<open>{ analysisId: analysis.id, ...clauseInfo }\<close>.\<close>

definition withAnalysisId :: "int \<Rightarrow> ClauseInfo \<Rightarrow> InsertRiskyClause" where
  "withAnalysisId analysisId clauseInfo =
     \<lparr> irc_analysisId = analysisId,
       irc_clauseIndex = ci_clauseIndex clauseInfo,
       irc_clauseText = ci_clauseText clauseInfo,
       irc_riskLevel = ci_riskLevel clauseInfo,
       irc_explanation = ci_explanation clauseInfo,
       irc_suggestion = Some (ci_suggestion clauseInfo) \<rparr>"

text \<open>
  The loop \<open>for (const clauseInfo of mockRiskyClauses)\<close>: a record is created for a mock
  clause when the indices of the analysis include its clause index.
\<close>

fun createRiskyClauseRecords ::
  "MemStorage \<Rightarrow> int \<Rightarrow> int list \<Rightarrow> ClauseInfo list \<Rightarrow> MemStorage" where
  "createRiskyClauseRecords s analysisId indices [] = s"
| "createRiskyClauseRecords s analysisId indices (clauseInfo # rest) =
     (if ci_clauseIndex clauseInfo \<in> set indices
      then createRiskyClauseRecords
             (fst (createRiskyClause s (withAnalysisId analysisId clauseInfo)))
             analysisId indices rest
      else createRiskyClauseRecords s analysisId indices rest)"

definition riskScoreData :: "string \<Rightarrow> UserData" where
  "riskScoreData score =
     \<lparr> ud_id = None, ud_email = None, ud_password = None, ud_firstName = None,
       ud_lastName = None, ud_company = None, ud_planType = None, ud_apiKey = None,
       ud_createdAt = None, ud_riskScore = Some score \<rparr>"

definition post_analyze_contract :: "MemStorage \<Rightarrow> AnalyzeBody \<Rightarrow> MemStorage \<times> Response" where
  "post_analyze_contract s body =
     (let required = respond 400 (MessageBody ''Contract ID and text are required'')
      in case ab_contractId body of
           None \<Rightarrow> (s, required)
         | Some contractId \<Rightarrow>
            (case ab_text body of
               None \<Rightarrow> (s, required)
             | Some text \<Rightarrow>
                if contractId = 0 \<or> text = [] then (s, required)
                else
                  (case getContract s contractId of
                     None \<Rightarrow> (s, respond 404 (MessageBody ''Contract not found''))
                   | Some contract \<Rightarrow>
                      (let analysisResult =
                             analyzeContract text
                               (case ab_contractType body of None \<Rightarrow> [] | Some t \<Rightarrow> t);
                           (s1, analysis) =
                             createAnalysis s
                               \<lparr> ia_contractId = contractId,
                                 ia_summary = ar_summary analysisResult,
                                 ia_riskyClauseIndices = ar_riskyClauseIndices analysisResult,
                                 ia_fullAnalysis = ar_fullAnalysis analysisResult \<rparr>;
                           s2 = fst (updateUser s1 (contract_id contract)
                                       (riskScoreData (ar_riskScore analysisResult)));
                           s3 = (if length (ar_riskyClauseIndices analysisResult) > 0
                                 then createRiskyClauseRecords s2 (analysis_id analysis)
                                        (ar_riskyClauseIndices analysisResult) mockRiskyClauses
                                 else s2)
                       in (s3, respond 200 (AnalysisBody analysis))))))"

definition get_analysis_contract :: "MemStorage \<Rightarrow> int option \<Rightarrow> Response" where
  "get_analysis_contract s contractIdParam =
     (case (case contractIdParam of None \<Rightarrow> None
            | Some contractId \<Rightarrow> getAnalysisByContractId s contractId) of
        None \<Rightarrow> respond 404 (MessageBody ''Analysis not found'')
      | Some analysis \<Rightarrow> respond 200 (AnalysisBody analysis))"

definition get_risky_clauses_analysis :: "MemStorage \<Rightarrow> int option \<Rightarrow> Response" where
  "get_risky_clauses_analysis s analysisIdParam =
     respond 200 (RiskyClausesBody
       (case analysisIdParam of None \<Rightarrow> []
        | Some analysisId \<Rightarrow> getRiskyClausesByAnalysisId s analysisId))"

text \<open>
  The values a call of the message route draws from outside: the two identifiers made
  from \<open>Math.random()\<close> and the three readings of the clock.
\<close>

record AskEnv =
  env_userMessageId :: string
  env_userTimestamp :: string
  env_aiMessageId :: string
  env_aiTimestamp :: string
  env_updatedAt :: string

definition post_conversation_message ::
  "MemStorage \<Rightarrow> AskEnv \<Rightarrow> int option \<Rightarrow> string option \<Rightarrow> MemStorage \<times> Response" where
  "post_conversation_message s env idParam questionProp =
     (case questionProp of
        None \<Rightarrow> (s, respond 400 (MessageBody ''Question is required''))
      | Some question \<Rightarrow>
         if question = [] then (s, respond 400 (MessageBody ''Question is required''))
         else
           (case idParam of
              None \<Rightarrow> (s, respond 404 (MessageBody ''Conversation not found''))
            | Some conversationId \<Rightarrow>
               (case getConversation s conversationId of
                  None \<Rightarrow> (s, respond 404 (MessageBody ''Conversation not found''))
                | Some conversation \<Rightarrow>
                   (let userMessage = \<lparr> msg_id = env_userMessageId env, msg_role = user,
                                        msg_content = question,
                                        msg_timestamp = env_userTimestamp env \<rparr>;
                        answer = answerContractQuestion (conv_contractId conversation) question;
                        aiMessage = \<lparr> msg_id = env_aiMessageId env, msg_role = assistant,
                                      msg_content = answer,
                                      msg_timestamp = env_aiTimestamp env \<rparr>;
                        updatedMessages = (conv_messages conversation @ [userMessage]) @ [aiMessage];
                        (s', updatedConversation) =
                          updateConversation s (env_updatedAt env) conversationId updatedMessages
                    in (s', respond 200 (ConversationBody updatedConversation))))))"

record QaBody =
  qa_contractId :: "int option"
  qa_question :: "string option"

definition post_contract_qa :: "MemStorage \<Rightarrow> QaBody \<Rightarrow> Response" where
  "post_contract_qa s body =
     (let required = respond 400 (MessageBody ''Contract ID and question are required'')
      in case qa_contractId body of
           None \<Rightarrow> required
         | Some contractId \<Rightarrow>
            (case qa_question body of
               None \<Rightarrow> required
             | Some question \<Rightarrow>
                if contractId = 0 \<or> question = [] then required
                else
                  (case getContract s contractId of
                     None \<Rightarrow> respond 404 (MessageBody ''Contract not found'')
                   | Some contract \<Rightarrow>
                      respond 200 (AnswerBody (answerContractQuestion contractId question)))))"

section \<open>The demo data of the storage (MemStorage constructor)\<close>

text \<open>
  \<open>now\<close> is the reading of the clock in \<open>addDemoData\<close>, and \<open>uuid k\<close> the result of the
  call number \<open>k\<close> of \<open>uuidv4()\<close>.
\<close>

record ContractInfo =
  cinfo_name :: string
  cinfo_fileType :: string
  cinfo_contractType :: string
  cinfo_riskScore :: string
  cinfo_uploadedAt :: string

definition contractData :: "ContractInfo list" where
  "contractData =
     [\<lparr> cinfo_name = ''Client Services Agreement'', cinfo_fileType = ''pdf'',
        cinfo_contractType = ''Service Contract'', cinfo_riskScore = ''high'',
        cinfo_uploadedAt = ''2023-08-15T12:00:00Z'' \<rparr>,
      \<lparr> cinfo_name = ''Employment Agreement'', cinfo_fileType = ''docx'',
        cinfo_contractType = ''Employment'', cinfo_riskScore = ''low'',
        cinfo_uploadedAt = ''2023-08-10T10:30:00Z'' \<rparr>,
      \<lparr> cinfo_name = ''Non-Disclosure Agreement'', cinfo_fileType = ''pdf'',
        cinfo_contractType = ''NDA'', cinfo_riskScore = ''medium'',
        cinfo_uploadedAt = ''2023-08-05T15:45:00Z'' \<rparr>,
      \<lparr> cinfo_name = ''Software License Agreement'', cinfo_fileType = ''docx'',
        cinfo_contractType = ''License'', cinfo_riskScore = ''medium'',
        cinfo_uploadedAt = ''2023-07-29T09:15:00Z'' \<rparr>]"

definition demoUser :: "int \<Rightarrow> string \<Rightarrow> User" where
  "demoUser i now =
     \<lparr> user_id = i, user_email = ''demo@example.com'',
       user_password = ''$2a$10$demohashedsecretpassword'',
       user_firstName = Some ''John'', user_lastName = Some ''Doe'',
       user_company = Some ''Acme Inc.'', user_planType = Some ''pro'',
       user_apiKey = Some ''sc_demoapikeyrandomstring123456'',
       user_createdAt = Some now, user_riskScore = None \<rparr>"

definition demoMessages :: "(nat \<Rightarrow> string) \<Rightarrow> Message list" where
  "demoMessages uuid =
     [\<lparr> msg_id = uuid 0, msg_role = user,
        msg_content = ''Can this contract be terminated early?'',
        msg_timestamp = ''2023-08-20T10:15:00Z'' \<rparr>,
      \<lparr> msg_id = uuid 1, msg_role = assistant,
        msg_content = answerTermination,
        msg_timestamp = ''2023-08-20T10:15:10Z'' \<rparr>,
      \<lparr> msg_id = uuid 2, msg_role = user,
        msg_content = ''What happens to confidential information after termination?'',
        msg_timestamp = ''2023-08-20T10:16:00Z'' \<rparr>,
      \<lparr> msg_id = uuid 3, msg_role = assistant,
        msg_content = answerConfidentiality,
        msg_timestamp = ''2023-08-20T10:16:10Z'' \<rparr>]"

text \<open>The body of \<open>contractData.forEach\<close>, for one entry of \<open>contractData\<close>.\<close>

definition addDemoContract ::
  "int \<Rightarrow> (nat \<Rightarrow> string) \<Rightarrow> ContractInfo \<Rightarrow> MemStorage \<Rightarrow> MemStorage" where
  "addDemoContract userId uuid contractInfo s =
     (let contract = \<lparr> contract_id = nextContractId s,
                       contract_userId = userId,
                       contract_name = cinfo_name contractInfo,
                       contract_fileType = cinfo_fileType contractInfo,
                       contract_originalText =
                         ''Sample contract text for '' @ cinfo_name contractInfo,
                       contract_contractType = Some (cinfo_contractType contractInfo),
                       contract_riskScore = cinfo_riskScore contractInfo,
                       contract_uploadedAt = Some (cinfo_uploadedAt contractInfo) \<rparr>;
          s1 = s\<lparr> nextContractId := nextContractId s + 1,
                  contracts := Map_set (contracts s) (contract_id contract) contract \<rparr>;
          analysis = \<lparr> analysis_id = nextAnalysisId s1,
                       analysis_contractId = contract_id contract,
                       analysis_summary = mockSummary,
                       analysis_riskyClauseIndices = [1, 3],
                       analysis_fullAnalysis =
                         \<lparr> fa_riskLevel = cinfo_riskScore contractInfo,
                           fa_riskReason = mockRiskReason,
                           fa_suggestions = mockSuggestions \<rparr> \<rparr>;
          s2 = s1\<lparr> nextAnalysisId := nextAnalysisId s1 + 1,
                   analyses := Map_set (analyses s1) (analysis_id analysis) analysis \<rparr>;
          s3 = (if cinfo_riskScore contractInfo = ''high''
                   \<or> cinfo_riskScore contractInfo = ''medium''
                then
                  (let riskyClause1 =
                         \<lparr> rc_id = nextRiskyClauseId s2,
                           rc_analysisId = analysis_id analysis, rc_clauseIndex = 1,
                           rc_clauseText = nonCompeteText, rc_riskLevel = ''high'',
                           rc_explanation = nonCompeteExplanation,
                           rc_suggestion = Some nonCompeteSuggestion \<rparr>;
                       t1 = s2\<lparr> nextRiskyClauseId := nextRiskyClauseId s2 + 1,
                                riskyClauses :=
                                  Map_set (riskyClauses s2) (rc_id riskyClause1) riskyClause1 \<rparr>;
                       riskyClause2 =
                         \<lparr> rc_id = nextRiskyClauseId t1,
                           rc_analysisId = analysis_id analysis, rc_clauseIndex = 3,
                           rc_clauseText = indemnifyText, rc_riskLevel = ''medium'',
                           rc_explanation = indemnifyExplanation,
                           rc_suggestion = Some indemnifySuggestion \<rparr>
                   in t1\<lparr> nextRiskyClauseId := nextRiskyClauseId t1 + 1,
                          riskyClauses :=
                            Map_set (riskyClauses t1) (rc_id riskyClause2) riskyClause2 \<rparr>)
                else s2)
      in if contract_id contract = 1
         then
           (let conversation =
                  \<lparr> conv_id = nextConversationId s3, conv_userId = userId,
                    conv_contractId = contract_id contract,
                    conv_messages = demoMessages uuid,
                    conv_createdAt = Some ''2023-08-20T10:15:00Z'',
                    conv_updatedAt = Some ''2023-08-20T10:16:10Z'' \<rparr>
            in s3\<lparr> nextConversationId := nextConversationId s3 + 1,
                   conversations :=
                     Map_set (conversations s3) (conv_id conversation) conversation \<rparr>)
         else s3)"

definition demoSavedClause1 :: "int \<Rightarrow> int \<Rightarrow> SavedClause" where
  "demoSavedClause1 i userId =
     \<lparr> sc_id = i, sc_userId = userId, sc_clauseType = ''Limitation of Liability'',
       sc_tone = ''formal'',
       sc_content = ''Neither party shall be liable for any indirect, incidental, special, consequential or punitive damages, including without limitation, loss of profits, data, use, goodwill, or other intangible losses, resulting from (i) your access to or use of or inability to access or use the Services; (ii) any conduct or content of any third party on the Services; (iii) any content obtained from the Services; and (iv) unauthorized access, use or alteration of your transmissions or content, whether based on warranty, contract, tort (including negligence) or any other legal theory, whether or not we have been informed of the possibility of such damage.'',
       sc_createdAt = Some ''2023-08-10T14:25:00Z'' \<rparr>"

definition demoSavedClause2 :: "int \<Rightarrow> int \<Rightarrow> SavedClause" where
  "demoSavedClause2 i userId =
     \<lparr> sc_id = i, sc_userId = userId, sc_clauseType = ''Payment Terms'',
       sc_tone = ''neutral'',
       sc_content = ''Client shall pay all invoices within thirty (30) days of receipt. Late payments shall accrue interest at a rate of 1.5% per month or the highest rate allowed by applicable law, whichever is lower, from the date such payment was due until the date paid. Contractor shall be entitled to recover all reasonable costs and expenses (including, without limitation, reasonable attorneys' fees) incurred in collecting late payments.'',
       sc_createdAt = Some ''2023-08-05T09:30:00Z'' \<rparr>"

definition addDemoData :: "string \<Rightarrow> (nat \<Rightarrow> string) \<Rightarrow> MemStorage \<Rightarrow> MemStorage" where
  "addDemoData now uuid s =
     (let demo = demoUser (nextUserId s) now;
          s1 = s\<lparr> nextUserId := nextUserId s + 1,
                  users := Map_set (users s) (user_id demo) demo \<rparr>;
          s2 = fold (addDemoContract (user_id demo) uuid) contractData s1;
          savedClause1 = demoSavedClause1 (nextSavedClauseId s2) (user_id demo);
          s3 = s2\<lparr> nextSavedClauseId := nextSavedClauseId s2 + 1,
                   savedClauses := Map_set (savedClauses s2) (sc_id savedClause1) savedClause1 \<rparr>;
          savedClause2 = demoSavedClause2 (nextSavedClauseId s3) (user_id demo)
      in s3\<lparr> nextSavedClauseId := nextSavedClauseId s3 + 1,
             savedClauses := Map_set (savedClauses s3) (sc_id savedClause2) savedClause2 \<rparr>)"

definition newMemStorage :: "string \<Rightarrow> (nat \<Rightarrow> string) \<Rightarrow> MemStorage" where
  "newMemStorage now uuid =
     addDemoData now uuid
       \<lparr> users = [], contracts = [], analyses = [], riskyClauses = [],
         savedClauses = [], conversations = [],
         nextUserId = 1, nextContractId = 1, nextAnalysisId = 1,
         nextRiskyClauseId = 1, nextSavedClauseId = 1, nextConversationId = 1 \<rparr>"

section \<open>Well-formed storages and the inputs of the scenarios\<close>

text \<open>
  The counters of a storage are ahead of the keys in use, and a risky clause belongs to
  an analysis that has been created. The storage the constructor builds is so, and the
  routes keep it so (lemmas \<open>storageInv_newMemStorage\<close>, \<open>storageInv_analyze\<close> and
  \<open>storageInv_message\<close> below).
\<close>

definition storageInv :: "MemStorage \<Rightarrow> bool" where
  "storageInv s \<longleftrightarrow>
     (\<forall>(k, a) \<in> set (analyses s). k < nextAnalysisId s) \<and>
     (\<forall>(k, c) \<in> set (riskyClauses s).
        k < nextRiskyClauseId s \<and> rc_analysisId c < nextAnalysisId s)"

text \<open>
  The entries that the loop over the mock clauses adds to the map of risky clauses, from
  the counter \<open>r\<close> on, for the analysis \<open>analysisId\<close>.
\<close>

fun newClauseEntries :: "int \<Rightarrow> int \<Rightarrow> ClauseInfo list \<Rightarrow> RiskyClause JsMap" where
  "newClauseEntries r analysisId [] = []"
| "newClauseEntries r analysisId (clauseInfo # rest) =
     (r, \<lparr> rc_id = r, rc_analysisId = analysisId,
            rc_clauseIndex = ci_clauseIndex clauseInfo,
            rc_clauseText = ci_clauseText clauseInfo,
            rc_riskLevel = ci_riskLevel clauseInfo,
            rc_explanation = ci_explanation clauseInfo,
            rc_suggestion = Some (ci_suggestion clauseInfo) \<rparr>)
     # newClauseEntries (r + 1) analysisId rest"

text \<open>What a risky clause says, its identifier and the identifier of its analysis apart.\<close>

definition clausePayload :: "RiskyClause \<Rightarrow> int \<times> string \<times> string \<times> string \<times> string option" where
  "clausePayload c =
     (rc_clauseIndex c, rc_clauseText c, rc_riskLevel c, rc_explanation c, rc_suggestion c)"

text \<open>The analysis a response carries, if it carries one.\<close>

definition analysisOf :: "Response \<Rightarrow> Analysis option" where
  "analysisOf r = (case res_body r of AnalysisBody a \<Rightarrow> Some a | _ \<Rightarrow> None)"

definition scenarioText :: string where
  "scenarioText = ''1. Termination. Either party may terminate this Agreement upon 30 days' notice. 2. Confidentiality. Each party shall protect Confidential Information.''"

text \<open>
  The storage of a server that has just started, for one reading of the clock and one
  sequence of identifiers.
\<close>

definition demoUuid :: "nat \<Rightarrow> string" where
  "demoUuid k = (if k = 0 then ''3f2b8c1e-0000-4000-8000-000000000000''
                 else if k = 1 then ''3f2b8c1e-0000-4000-8000-000000000001''
                 else if k = 2 then ''3f2b8c1e-0000-4000-8000-000000000002''
                 else ''3f2b8c1e-0000-4000-8000-000000000003'')"

definition demoStorage :: MemStorage where
  "demoStorage = newMemStorage ''2024-05-01T09:00:00.000Z'' demoUuid"

definition analyzeBody :: "int \<Rightarrow> string \<Rightarrow> AnalyzeBody" where
  "analyzeBody contractId text =
     \<lparr> ab_contractId = Some contractId, ab_text = Some text, ab_contractType = None \<rparr>"

definition demoEnv :: AskEnv where
  "demoEnv = \<lparr> env_userMessageId = ''k3j9x0q2a'', env_userTimestamp = ''2024-05-01T09:01:00.000Z'',
               env_aiMessageId = ''p7w1m4z8c'', env_aiTimestamp = ''2024-05-01T09:01:00.002Z'',
               env_updatedAt = ''2024-05-01T09:01:00.003Z'' \<rparr>"

definition demoStorageWithEmptyConversation :: MemStorage where
  "demoStorageWithEmptyConversation =
     fst (createConversation demoStorage ''2024-05-01T09:00:30.000Z''
            \<lparr> icv_userId = 1, icv_contractId = 1, icv_messages = [] \<rparr>)"

section \<open>The worst-of aggregation of the specification\<close>

text \<open>
  The specification orders the risk levels \<open>low < medium < high\<close> and takes as the level
  of a document the greatest level among the assessments of its clauses, \<open>low\<close> when
  there is none. The source has no such function; \<open>specMaxRiskLevel\<close> follows the words
  of the specification, to be compared with the level the source computes.
\<close>

definition riskRank :: "string \<Rightarrow> nat" where
  "riskRank level = (if level = ''high'' then 2 else if level = ''medium'' then 1 else 0)"

fun specMaxRiskLevel :: "string list \<Rightarrow> string" where
  "specMaxRiskLevel [] = ''low''"
| "specMaxRiskLevel (level # levels) =
     (if riskRank (specMaxRiskLevel levels) \<le> riskRank level then level
      else specMaxRiskLevel levels)"

section \<open>Lemmas on maps and on the storage operations\<close>

lemma Map_get_set_same: "Map_get (Map_set m k v) k = Some v"
  by (induction m) auto

lemma Map_get_set_other: "k' \<noteq> k \<Longrightarrow> Map_get (Map_set m k v) k' = Map_get m k'"
  by (induction m) auto

lemma Map_set_fresh: "k \<notin> fst ` set m \<Longrightarrow> Map_set m k v = m @ [(k, v)]"
  by (induction m) auto

lemma Map_get_Some_mem: "Map_get m k = Some v \<Longrightarrow> (k, v) \<in> set m"
  by (induction m) (auto split: if_splits)

lemma Map_set_below: "\<forall>(k', v') \<in> set m. k' < k \<Longrightarrow> Map_set m k v = m @ [(k, v)]"
  by (rule Map_set_fresh) force

lemma spreadUser_riskScore:
  "spreadUser u (riskScoreData score) = u\<lparr> user_riskScore := Some score \<rparr>"
  by (simp add: spreadUser_def riskScoreData_def mergeOpt_def)

lemma createRiskyClause_simps:
  "riskyClauses (fst (createRiskyClause s ins)) =
     Map_set (riskyClauses s) (nextRiskyClauseId s)
       \<lparr> rc_id = nextRiskyClauseId s, rc_analysisId = irc_analysisId ins,
         rc_clauseIndex = irc_clauseIndex ins, rc_clauseText = irc_clauseText ins,
         rc_riskLevel = irc_riskLevel ins, rc_explanation = irc_explanation ins,
         rc_suggestion = irc_suggestion ins \<rparr>"
  "nextRiskyClauseId (fst (createRiskyClause s ins)) = nextRiskyClauseId s + 1"
  "users (fst (createRiskyClause s ins)) = users s"
  "contracts (fst (createRiskyClause s ins)) = contracts s"
  "analyses (fst (createRiskyClause s ins)) = analyses s"
  "savedClauses (fst (createRiskyClause s ins)) = savedClauses s"
  "conversations (fst (createRiskyClause s ins)) = conversations s"
  "nextUserId (fst (createRiskyClause s ins)) = nextUserId s"
  "nextContractId (fst (createRiskyClause s ins)) = nextContractId s"
  "nextAnalysisId (fst (createRiskyClause s ins)) = nextAnalysisId s"
  "nextSavedClauseId (fst (createRiskyClause s ins)) = nextSavedClauseId s"
  "nextConversationId (fst (createRiskyClause s ins)) = nextConversationId s"
  by (simp_all add: createRiskyClause_def Let_def)

lemma createRiskyClauseRecords_frame:
  "users (createRiskyClauseRecords s n idxs cis) = users s"
  "contracts (createRiskyClauseRecords s n idxs cis) = contracts s"
  "analyses (createRiskyClauseRecords s n idxs cis) = analyses s"
  "savedClauses (createRiskyClauseRecords s n idxs cis) = savedClauses s"
  "conversations (createRiskyClauseRecords s n idxs cis) = conversations s"
  "nextUserId (createRiskyClauseRecords s n idxs cis) = nextUserId s"
  "nextContractId (createRiskyClauseRecords s n idxs cis) = nextContractId s"
  "nextAnalysisId (createRiskyClauseRecords s n idxs cis) = nextAnalysisId s"
  "nextSavedClauseId (createRiskyClauseRecords s n idxs cis) = nextSavedClauseId s"
  "nextConversationId (createRiskyClauseRecords s n idxs cis) = nextConversationId s"
  by (induction s n idxs cis rule: createRiskyClauseRecords.induct;
      simp add: createRiskyClause_simps)+

lemma newClauseEntries_keys:
  "(k, c) \<in> set (newClauseEntries r n cis) \<Longrightarrow> r \<le> k \<and> k < r + int (length cis) \<and> rc_analysisId c = n"
  by (induction r n cis rule: newClauseEntries.induct) auto

lemma createRiskyClauseRecords_entries:
  "\<forall>(k, c) \<in> set (riskyClauses s). k < nextRiskyClauseId s \<Longrightarrow>
   riskyClauses (createRiskyClauseRecords s n idxs cis) =
     riskyClauses s @ newClauseEntries (nextRiskyClauseId s) n
                        (filter (\<lambda>ci. ci_clauseIndex ci \<in> set idxs) cis)
   \<and> nextRiskyClauseId (createRiskyClauseRecords s n idxs cis) =
     nextRiskyClauseId s + int (length (filter (\<lambda>ci. ci_clauseIndex ci \<in> set idxs) cis))"
proof (induction s n idxs cis rule: createRiskyClauseRecords.induct)
  case (1 s n idxs)
  then show ?case by simp
next
  case (2 s n idxs ci rest)
  show ?case
  proof (cases "ci_clauseIndex ci \<in> set idxs")
    case False
    with 2 show ?thesis by simp
  next
    case True
    let ?s1 = "fst (createRiskyClause s (withAnalysisId n ci))"
    have app: "riskyClauses ?s1 = riskyClauses s @
        [(nextRiskyClauseId s, \<lparr> rc_id = nextRiskyClauseId s, rc_analysisId = n,
            rc_clauseIndex = ci_clauseIndex ci, rc_clauseText = ci_clauseText ci,
            rc_riskLevel = ci_riskLevel ci, rc_explanation = ci_explanation ci,
            rc_suggestion = Some (ci_suggestion ci) \<rparr>)]"
      using "2.prems" by (simp add: createRiskyClause_simps Map_set_below withAnalysisId_def)
    have fresh: "\<forall>(k, c) \<in> set (riskyClauses ?s1). k < nextRiskyClauseId ?s1"
      unfolding app using "2.prems" by (auto simp: createRiskyClause_simps(2))
    from "2.IH"(1)[OF True fresh] True show ?thesis
      unfolding app by (simp add: createRiskyClause_simps(2))
  qed
qed


lemma analyzeContract_contractType: "analyzeContract text ct = analyzeContract text []"
  by (simp add: analyzeContract_def Let_def)

lemma analyze_failure:
  "res_status (snd (post_analyze_contract s body)) \<noteq> 200 \<Longrightarrow>
   fst (post_analyze_contract s body) = s"
  by (auto simp: post_analyze_contract_def respond_def Let_def
           split: option.splits if_splits prod.splits)

lemma analyze_success_inputs:
  "res_status (snd (post_analyze_contract s body)) = 200 \<Longrightarrow>
   \<exists>cid text c. ab_contractId body = Some cid \<and> ab_text body = Some text \<and> cid \<noteq> 0
      \<and> text \<noteq> [] \<and> getContract s cid = Some c"
  by (auto simp: post_analyze_contract_def respond_def Let_def
           split: option.splits if_splits prod.splits)

lemma updateUser_frame:
  "contracts (fst (updateUser s i d)) = contracts s"
  "analyses (fst (updateUser s i d)) = analyses s"
  "riskyClauses (fst (updateUser s i d)) = riskyClauses s"
  "savedClauses (fst (updateUser s i d)) = savedClauses s"
  "conversations (fst (updateUser s i d)) = conversations s"
  "nextUserId (fst (updateUser s i d)) = nextUserId s"
  "nextContractId (fst (updateUser s i d)) = nextContractId s"
  "nextAnalysisId (fst (updateUser s i d)) = nextAnalysisId s"
  "nextRiskyClauseId (fst (updateUser s i d)) = nextRiskyClauseId s"
  "nextSavedClauseId (fst (updateUser s i d)) = nextSavedClauseId s"
  "nextConversationId (fst (updateUser s i d)) = nextConversationId s"
  by (simp_all add: updateUser_def Let_def split: option.splits)

lemma updateUser_users:
  "users (fst (updateUser s i (riskScoreData score))) =
     (case getUser s i of None \<Rightarrow> users s
      | Some u \<Rightarrow> Map_set (users s) i (u\<lparr> user_riskScore := Some score \<rparr>))"
  by (simp add: updateUser_def Let_def spreadUser_riskScore split: option.splits)

lemma analyze_success:
  assumes "ab_contractId body = Some cid" and "ab_text body = Some text"
    and "cid \<noteq> 0" and "text \<noteq> []" and "getContract s cid = Some c"
  shows "post_analyze_contract s body =
     (createRiskyClauseRecords
        (fst (updateUser
               (s\<lparr> nextAnalysisId := nextAnalysisId s + 1,
                    analyses := Map_set (analyses s) (nextAnalysisId s)
                      \<lparr> analysis_id = nextAnalysisId s, analysis_contractId = cid,
                        analysis_summary = mockSummary,
                        analysis_riskyClauseIndices =
                          ar_riskyClauseIndices (analyzeContract text []),
                        analysis_fullAnalysis = ar_fullAnalysis (analyzeContract text []) \<rparr> \<rparr>)
               (contract_id c) (riskScoreData (ar_riskScore (analyzeContract text [])))))
        (nextAnalysisId s) (ar_riskyClauseIndices (analyzeContract text [])) mockRiskyClauses,
      respond 200 (AnalysisBody
         \<lparr> analysis_id = nextAnalysisId s, analysis_contractId = cid,
           analysis_summary = mockSummary,
           analysis_riskyClauseIndices = ar_riskyClauseIndices (analyzeContract text []),
           analysis_fullAnalysis = ar_fullAnalysis (analyzeContract text []) \<rparr>))"
proof -
  have ct: "analyzeContract text (case ab_contractType body of None \<Rightarrow> [] | Some t \<Rightarrow> t)
              = analyzeContract text []"
    by (rule analyzeContract_contractType)
  have summ: "ar_summary (analyzeContract text []) = mockSummary"
    by (simp add: analyzeContract_def Let_def)
  have empty: "ar_riskyClauseIndices (analyzeContract text []) = [] \<Longrightarrow>
       createRiskyClauseRecords t n (ar_riskyClauseIndices (analyzeContract text [])) mockRiskyClauses = t"
    for t n by (simp add: mockRiskyClauses_def)
  show ?thesis
    using assms empty
    by (simp add: post_analyze_contract_def ct summ createAnalysis_def Let_def)
qed


lemma analyze_success_frame:
  assumes "ab_contractId body = Some cid" and "ab_text body = Some text"
    and "cid \<noteq> 0" and "text \<noteq> []" and "getContract s cid = Some c"
  shows "contracts (fst (post_analyze_contract s body)) = contracts s"
    and "savedClauses (fst (post_analyze_contract s body)) = savedClauses s"
    and "conversations (fst (post_analyze_contract s body)) = conversations s"
    and "nextUserId (fst (post_analyze_contract s body)) = nextUserId s"
    and "nextContractId (fst (post_analyze_contract s body)) = nextContractId s"
    and "nextSavedClauseId (fst (post_analyze_contract s body)) = nextSavedClauseId s"
    and "nextConversationId (fst (post_analyze_contract s body)) = nextConversationId s"
    and "nextAnalysisId (fst (post_analyze_contract s body)) = nextAnalysisId s + 1"
    and "users (fst (post_analyze_contract s body)) =
           (case getUser s (contract_id c) of None \<Rightarrow> users s
            | Some u \<Rightarrow> Map_set (users s) (contract_id c)
                (u\<lparr> user_riskScore := Some (ar_riskScore (analyzeContract text [])) \<rparr>))"
    and "analyses (fst (post_analyze_contract s body)) =
           Map_set (analyses s) (nextAnalysisId s)
             \<lparr> analysis_id = nextAnalysisId s, analysis_contractId = cid,
               analysis_summary = mockSummary,
               analysis_riskyClauseIndices = ar_riskyClauseIndices (analyzeContract text []),
               analysis_fullAnalysis = ar_fullAnalysis (analyzeContract text []) \<rparr>"
  by (simp_all add: analyze_success[OF assms] createRiskyClauseRecords_frame
        updateUser_frame updateUser_users getUser_def split: option.splits)

lemma analyze_success_clauses:
  assumes "ab_contractId body = Some cid" and "ab_text body = Some text"
    and "cid \<noteq> 0" and "text \<noteq> []" and "getContract s cid = Some c"
    and inv: "storageInv s"
  shows "riskyClauses (fst (post_analyze_contract s body)) =
           riskyClauses s @ newClauseEntries (nextRiskyClauseId s) (nextAnalysisId s)
             (filter (\<lambda>ci. ci_clauseIndex ci \<in> set (ar_riskyClauseIndices (analyzeContract text [])))
                mockRiskyClauses)"
    and "nextRiskyClauseId (fst (post_analyze_contract s body)) =
           nextRiskyClauseId s + int (length
             (filter (\<lambda>ci. ci_clauseIndex ci \<in> set (ar_riskyClauseIndices (analyzeContract text [])))
                mockRiskyClauses))"
proof -
  let ?t = "fst (updateUser
               (s\<lparr> nextAnalysisId := nextAnalysisId s + 1,
                    analyses := Map_set (analyses s) (nextAnalysisId s)
                      \<lparr> analysis_id = nextAnalysisId s, analysis_contractId = cid,
                        analysis_summary = mockSummary,
                        analysis_riskyClauseIndices =
                          ar_riskyClauseIndices (analyzeContract text []),
                        analysis_fullAnalysis = ar_fullAnalysis (analyzeContract text []) \<rparr> \<rparr>)
               (contract_id c) (riskScoreData (ar_riskScore (analyzeContract text []))))"
  have t: "riskyClauses ?t = riskyClauses s" "nextRiskyClauseId ?t = nextRiskyClauseId s"
    by (simp_all add: updateUser_frame)
  have "\<forall>(k, c) \<in> set (riskyClauses ?t). k < nextRiskyClauseId ?t"
    unfolding t using inv by (auto simp: storageInv_def)
  from createRiskyClauseRecords_entries[OF this] t
  show "riskyClauses (fst (post_analyze_contract s body)) =
           riskyClauses s @ newClauseEntries (nextRiskyClauseId s) (nextAnalysisId s)
             (filter (\<lambda>ci. ci_clauseIndex ci \<in> set (ar_riskyClauseIndices (analyzeContract text [])))
                mockRiskyClauses)"
    and "nextRiskyClauseId (fst (post_analyze_contract s body)) =
           nextRiskyClauseId s + int (length
             (filter (\<lambda>ci. ci_clauseIndex ci \<in> set (ar_riskyClauseIndices (analyzeContract text [])))
                mockRiskyClauses))"
    by (simp_all add: analyze_success[OF assms(1-5)])
qed

lemma analyses_fresh:
  "storageInv s \<Longrightarrow> Map_set (analyses s) (nextAnalysisId s) a = analyses s @ [(nextAnalysisId s, a)]"
  by (rule Map_set_below) (auto simp: storageInv_def)

lemma newClauseEntries_filter:
  "filter (\<lambda>c. rc_analysisId c = n) (map snd (newClauseEntries r n cis)) =
     map snd (newClauseEntries r n cis)"
  by (induction r n cis rule: newClauseEntries.induct) auto

lemma analyze_success_stored:
  assumes "ab_contractId body = Some cid" and "ab_text body = Some text"
    and "cid \<noteq> 0" and "text \<noteq> []" and "getContract s cid = Some c"
    and inv: "storageInv s"
  shows "getRiskyClausesByAnalysisId (fst (post_analyze_contract s body)) (nextAnalysisId s) =
           map snd (newClauseEntries (nextRiskyClauseId s) (nextAnalysisId s)
             (filter (\<lambda>ci. ci_clauseIndex ci \<in> set (ar_riskyClauseIndices (analyzeContract text [])))
                mockRiskyClauses))"
proof -
  have old: "filter (\<lambda>c. rc_analysisId c = nextAnalysisId s) (map snd (riskyClauses s)) = []"
    using inv by (auto simp: storageInv_def filter_empty_conv)
  show ?thesis
    by (simp add: getRiskyClausesByAnalysisId_def Map_values_def
          analyze_success_clauses(1)[OF assms] old newClauseEntries_filter)
qed

lemma storageInv_analyze: "storageInv s \<Longrightarrow> storageInv (fst (post_analyze_contract s body))"
proof (cases "res_status (snd (post_analyze_contract s body)) = 200")
  case False
  assume "storageInv s"
  with analyze_failure[OF False] show ?thesis by simp
next
  case True
  assume inv: "storageInv s"
  from analyze_success_inputs[OF True] obtain cid tx c where
    ok: "ab_contractId body = Some cid" "ab_text body = Some tx" "cid \<noteq> 0" "tx \<noteq> []"
        "getContract s cid = Some c"
    by blast
  show ?thesis
    unfolding storageInv_def
      analyze_success_frame(8,10)[OF ok] analyze_success_clauses[OF ok inv] analyses_fresh[OF inv]
    using inv by (fastforce simp: storageInv_def dest: newClauseEntries_keys)
qed

section \<open>The storage of the constructor is well formed\<close>

lemma set_Map_set: "set (Map_set m k v) \<subseteq> insert (k, v) (set m)"
  by (induction m) (auto split: if_splits)

lemma storageInv_addDemoContract:
  assumes "storageInv s"
  shows "storageInv (addDemoContract userId uuid contractInfo s)"
proof -
  have *: "(k, v) \<in> set (Map_set m k' v') \<Longrightarrow> (k, v) = (k', v') \<or> (k, v) \<in> set m"
    for k v k' v' and m :: "'a JsMap"
    using set_Map_set[of m k' v'] by auto
  show ?thesis
    using assms
    unfolding storageInv_def addDemoContract_def Let_def
    by (auto dest!: * split: if_splits)
qed

lemma storageInv_fold_addDemoContract:
  "storageInv s \<Longrightarrow> storageInv (fold (addDemoContract userId uuid) cis s)"
  by (induction cis arbitrary: s) (simp_all add: storageInv_addDemoContract)

lemma storageInv_newMemStorage: "storageInv (newMemStorage now uuid)"
proof -
  have "storageInv \<lparr> users = [(1, demoUser 1 now)], contracts = [], analyses = [], riskyClauses = [],
         savedClauses = [], conversations = [],
         nextUserId = 2, nextContractId = 1, nextAnalysisId = 1,
         nextRiskyClauseId = 1, nextSavedClauseId = 1, nextConversationId = 1 \<rparr>"
    by (simp add: storageInv_def)
  from storageInv_fold_addDemoContract[OF this, of 1 uuid contractData]
  show ?thesis
    by (simp add: newMemStorage_def addDemoData_def Let_def storageInv_def demoUser_def)
qed

section \<open>The message route\<close>

lemma message_success:
  assumes "question \<noteq> []" and "getConversation s i = Some conv"
  shows "post_conversation_message s env (Some i) (Some question) =
     (s\<lparr> conversations := Map_set (conversations s) i
           (conv\<lparr> conv_messages := conv_messages conv @
                   [\<lparr> msg_id = env_userMessageId env, msg_role = user,
                      msg_content = question, msg_timestamp = env_userTimestamp env \<rparr>,
                    \<lparr> msg_id = env_aiMessageId env, msg_role = assistant,
                      msg_content = answerContractQuestion (conv_contractId conv) question,
                      msg_timestamp = env_aiTimestamp env \<rparr>],
                 conv_updatedAt := Some (env_updatedAt env) \<rparr>) \<rparr>,
      respond 200 (ConversationBody (Some
           (conv\<lparr> conv_messages := conv_messages conv @
                   [\<lparr> msg_id = env_userMessageId env, msg_role = user,
                      msg_content = question, msg_timestamp = env_userTimestamp env \<rparr>,
                    \<lparr> msg_id = env_aiMessageId env, msg_role = assistant,
                      msg_content = answerContractQuestion (conv_contractId conv) question,
                      msg_timestamp = env_aiTimestamp env \<rparr>],
                 conv_updatedAt := Some (env_updatedAt env) \<rparr>))))"
  using assms by (simp add: post_conversation_message_def updateConversation_def Let_def)

lemma message_failure:
  "res_status (snd (post_conversation_message s env idParam q)) \<noteq> 200 \<Longrightarrow>
   fst (post_conversation_message s env idParam q) = s"
  by (auto simp: post_conversation_message_def respond_def updateConversation_def Let_def
           split: option.splits if_splits prod.splits)

lemma message_success_inputs:
  "res_status (snd (post_conversation_message s env idParam q)) = 200 \<Longrightarrow>
   \<exists>i conv question. idParam = Some i \<and> q = Some question \<and> question \<noteq> []
      \<and> getConversation s i = Some conv"
  by (auto simp: post_conversation_message_def respond_def updateConversation_def Let_def
           split: option.splits if_splits prod.splits)

lemma storageInv_message:
  "storageInv s \<Longrightarrow> storageInv (fst (post_conversation_message s env idParam q))"
proof (cases "res_status (snd (post_conversation_message s env idParam q)) = 200")
  case False
  assume "storageInv s"
  with message_failure[OF False] show ?thesis by simp
next
  case True
  assume inv: "storageInv s"
  from message_success_inputs[OF True] obtain i conv question where
    "idParam = Some i" "q = Some question" "question \<noteq> []" "getConversation s i = Some conv"
    by blast
  with inv show ?thesis
    by (simp add: message_success storageInv_def)
qed


section \<open>Lemmas for the scenarios\<close>

lemma scenario_high: "hasHighRisk scenarioText"
  by code_simp

lemma demo_contract_1: "getContract demoStorage 1 \<noteq> None"
  by code_simp

lemma demo_inv: "storageInv demoStorage"
  by (simp add: demoStorage_def storageInv_newMemStorage)

lemma qa_success_answer:
  assumes "post_contract_qa s \<lparr> qa_contractId = Some cid, qa_question = Some question \<rparr> =
             respond 200 (AnswerBody answer)"
  shows "question \<noteq> [] \<and> answer = answerContractQuestion cid question"
  using assms
  by (auto simp: post_contract_qa_def respond_def Let_def split: option.splits if_splits)

lemma newClauseEntries_payload:
  "map clausePayload (map snd (newClauseEntries r n cis)) =
     map (\<lambda>ci. (ci_clauseIndex ci, ci_clauseText ci, ci_riskLevel ci, ci_explanation ci,
                 Some (ci_suggestion ci))) cis"
  by (induction r n cis rule: newClauseEntries.induct) (simp_all add: clausePayload_def)

lemma newClauseEntries_levels:
  "map rc_riskLevel (map snd (newClauseEntries r n cis)) = map ci_riskLevel cis"
  by (induction r n cis rule: newClauseEntries.induct) simp_all

section \<open>Claims\<close>

subsection \<open>C1: the termination and confidentiality scenario\<close>

text \<open>
  C1, counterexample. C1 expects, for the text of the scenario, the document level
  \<open>medium\<close> and the risky clause indices \<open>[0]\<close>. \<open>analyzeContract\<close> does not segment the
  text: it looks for keywords in the lower-cased text, and \<open>termination\<close> is one of the
  two keywords of the level \<open>high\<close>. The level is \<open>high\<close> and the indices are \<open>[0, 3]\<close>.
\<close>

theorem C1_scenario_counterexample:
  "fa_riskLevel (ar_fullAnalysis (analyzeContract scenarioText [])) = ''high'' \<and>
   ar_riskyClauseIndices (analyzeContract scenarioText []) = [0, 3]"
  using scenario_high by (simp add: analyzeContract_def Let_def)

text \<open>
  C1, as amended. For the text of the scenario, on a well-formed storage that holds the
  contract, POST /api/analyze-contract answers 200 with an analysis of level \<open>high\<close>
  and risky clause indices \<open>[0, 3]\<close>, whatever the contract type, and stores two risky
  clauses for it: clause index 0 with level \<open>high\<close> and clause index 3 with level
  \<open>medium\<close>.
\<close>

theorem C1_scenario_analysis:
  assumes "getContract s cid \<noteq> None" and "cid \<noteq> 0" and "storageInv s"
  shows "snd (post_analyze_contract s
            \<lparr> ab_contractId = Some cid, ab_text = Some scenarioText, ab_contractType = ct \<rparr>) =
         respond 200 (AnalysisBody
           \<lparr> analysis_id = nextAnalysisId s, analysis_contractId = cid,
             analysis_summary = mockSummary,
             analysis_riskyClauseIndices = [0, 3],
             analysis_fullAnalysis =
               \<lparr> fa_riskLevel = ''high'', fa_riskReason = mockRiskReason,
                 fa_suggestions = mockSuggestions \<rparr> \<rparr>)
       \<and> map (\<lambda>c. (rc_clauseIndex c, rc_riskLevel c))
           (getRiskyClausesByAnalysisId
              (fst (post_analyze_contract s
                 \<lparr> ab_contractId = Some cid, ab_text = Some scenarioText, ab_contractType = ct \<rparr>))
              (nextAnalysisId s)) =
         [(0, ''high''), (3, ''medium'')]"
proof -
  let ?body = "\<lparr> ab_contractId = Some cid, ab_text = Some scenarioText, ab_contractType = ct \<rparr>"
  from assms(1) obtain c where c: "getContract s cid = Some c" by auto
  have ne: "scenarioText \<noteq> []" by (simp add: scenarioText_def)
  have res: "analyzeContract scenarioText [] =
      \<lparr> ar_summary = mockSummary, ar_riskyClauseIndices = [0, 3],
        ar_fullAnalysis = \<lparr> fa_riskLevel = ''high'', fa_riskReason = mockRiskReason,
                             fa_suggestions = mockSuggestions \<rparr>,
        ar_riskScore = ''high'' \<rparr>"
    using scenario_high by (simp add: analyzeContract_def Let_def)
  have ok: "ab_contractId ?body = Some cid" "ab_text ?body = Some scenarioText"
    by simp_all
  have 1: "snd (post_analyze_contract s ?body) =
         respond 200 (AnalysisBody
           \<lparr> analysis_id = nextAnalysisId s, analysis_contractId = cid,
             analysis_summary = mockSummary,
             analysis_riskyClauseIndices = [0, 3],
             analysis_fullAnalysis =
               \<lparr> fa_riskLevel = ''high'', fa_riskReason = mockRiskReason,
                 fa_suggestions = mockSuggestions \<rparr> \<rparr>)"
    by (simp add: analyze_success[OF ok assms(2) ne c] res)
  have 2: "map (\<lambda>c. (rc_clauseIndex c, rc_riskLevel c))
           (getRiskyClausesByAnalysisId (fst (post_analyze_contract s ?body)) (nextAnalysisId s)) =
         [(0, ''high''), (3, ''medium'')]"
    unfolding analyze_success_stored[OF ok assms(2) ne c assms(3)] res
    by (simp add: mockRiskyClauses_def)
  from 1 2 show ?thesis by simp
qed

theorem C1_scenario_analysis_witness:
  "getContract demoStorage 1 \<noteq> None \<and> storageInv demoStorage \<and>
   map_option (\<lambda>a. (analysis_id a, analysis_riskyClauseIndices a,
                    fa_riskLevel (analysis_fullAnalysis a)))
     (analysisOf (snd (post_analyze_contract demoStorage (analyzeBody 1 scenarioText)))) =
     Some (5, [0, 3], ''high'') \<and>
   map (\<lambda>c. (rc_clauseIndex c, rc_riskLevel c))
     (getRiskyClausesByAnalysisId
        (fst (post_analyze_contract demoStorage (analyzeBody 1 scenarioText))) 5) =
     [(0, ''high''), (3, ''medium'')]"
proof -
  have n: "nextAnalysisId demoStorage = 5" by code_simp
  have one: "(1::int) \<noteq> 0" by simp
  from C1_scenario_analysis[OF demo_contract_1 one demo_inv, of None]
  show ?thesis
    using demo_contract_1 demo_inv
    by (simp add: n analyzeBody_def analysisOf_def respond_def)
qed

subsection \<open>C2: a text that is blank\<close>

text \<open>
  C2, counterexample. C2 expects the text of three spaces to be refused and no analysis
  to be created. The route tests \<open>!text\<close>, which holds of the empty string only, and
  trims nothing: for contract 1 of the demo data the answer is 200 and analysis 5 is
  created.
\<close>

theorem C2_blank_text_counterexample:
  "res_status (snd (post_analyze_contract demoStorage (analyzeBody 1 ''   ''))) = 200 \<and>
   getAnalysis demoStorage 5 = None \<and>
   getAnalysis (fst (post_analyze_contract demoStorage (analyzeBody 1 ''   ''))) 5 \<noteq> None"
  by code_simp

text \<open>
  C2, as amended. When the text is absent or is the empty string, the route answers 400
  with the message \<open>Contract ID and text are required\<close> and the storage is as it was, so
  that no analysis is created.
\<close>

theorem C2_empty_text_rejected:
  assumes "ab_text body = None \<or> ab_text body = Some []"
  shows "post_analyze_contract s body =
           (s, respond 400 (MessageBody ''Contract ID and text are required''))"
  using assms
  by (auto simp: post_analyze_contract_def Let_def split: option.splits)

theorem C2_empty_text_rejected_witness:
  "ab_text (analyzeBody 1 []) = Some [] \<and>
   post_analyze_contract demoStorage (analyzeBody 1 []) =
     (demoStorage, respond 400 (MessageBody ''Contract ID and text are required''))"
  using C2_empty_text_rejected[of "analyzeBody 1 []" demoStorage]
  by (simp add: analyzeBody_def)

subsection \<open>C3: the level of the document and the levels of its risky clauses\<close>

text \<open>
  C3, counterexample. C3 expects the level of the document to be the greatest level
  among the risky clauses stored for the analysis, and \<open>low\<close> when there is none. For a
  text with the keyword \<open>payment\<close> and none of \<open>termination\<close> and \<open>compete\<close> the level
  is \<open>medium\<close> and no risky clause is stored for the analysis.
\<close>

theorem C3_medium_level_counterexample:
  "map_option (fa_riskLevel \<circ> analysis_fullAnalysis)
     (analysisOf (snd (post_analyze_contract demoStorage
        (analyzeBody 1 ''Payment is due within 30 days.'')))) = Some ''medium'' \<and>
   map_option analysis_id
     (analysisOf (snd (post_analyze_contract demoStorage
        (analyzeBody 1 ''Payment is due within 30 days.'')))) = Some 5 \<and>
   getRiskyClausesByAnalysisId
     (fst (post_analyze_contract demoStorage
        (analyzeBody 1 ''Payment is due within 30 days.''))) 5 = []"
  by code_simp

text \<open>
  C3, as amended. The level comes from the keywords of the text. When the text holds
  \<open>termination\<close> or \<open>compete\<close>, or holds neither \<open>payment\<close> nor \<open>liability\<close>, the level
  of the analysis that a successful call of the route returns is the greatest level
  among the risky clauses stored for that analysis, \<open>low\<close> when there is none.
\<close>

theorem C3_level_is_maximum_of_records:
  assumes "storageInv s"
    and "res_status (snd (post_analyze_contract s body)) = 200"
    and "ab_text body = Some tx"
    and "hasHighRisk tx \<or> \<not> hasMediumRisk tx"
  shows "\<exists>a. snd (post_analyze_contract s body) = respond 200 (AnalysisBody a) \<and>
           fa_riskLevel (analysis_fullAnalysis a) =
             specMaxRiskLevel (map rc_riskLevel
               (getRiskyClausesByAnalysisId (fst (post_analyze_contract s body)) (analysis_id a)))"
proof -
  from analyze_success_inputs[OF assms(2)] assms(3) obtain cid c where
    ok: "ab_contractId body = Some cid" "ab_text body = Some tx" "cid \<noteq> 0" "tx \<noteq> []"
        "getContract s cid = Some c"
    by auto
  let ?a = "\<lparr> analysis_id = nextAnalysisId s, analysis_contractId = cid,
              analysis_summary = mockSummary,
              analysis_riskyClauseIndices = ar_riskyClauseIndices (analyzeContract tx []),
              analysis_fullAnalysis = ar_fullAnalysis (analyzeContract tx []) \<rparr>"
  have r: "snd (post_analyze_contract s body) = respond 200 (AnalysisBody ?a)"
    by (simp add: analyze_success[OF ok])
  have levels: "map rc_riskLevel
        (getRiskyClausesByAnalysisId (fst (post_analyze_contract s body)) (nextAnalysisId s)) =
      map ci_riskLevel
        (filter (\<lambda>ci. ci_clauseIndex ci \<in> set (ar_riskyClauseIndices (analyzeContract tx [])))
           mockRiskyClauses)"
    by (simp only: analyze_success_stored[OF ok assms(1)] newClauseEntries_levels)
  have "fa_riskLevel (ar_fullAnalysis (analyzeContract tx [])) =
      specMaxRiskLevel (map ci_riskLevel
        (filter (\<lambda>ci. ci_clauseIndex ci \<in> set (ar_riskyClauseIndices (analyzeContract tx [])))
           mockRiskyClauses))"
    using assms(4)
    by (auto simp: analyzeContract_def Let_def mockRiskyClauses_def riskRank_def)
  with r levels show ?thesis
    by (intro exI[of _ ?a]) simp
qed

theorem C3_level_is_maximum_of_records_witness:
  "storageInv demoStorage \<and>
   res_status (snd (post_analyze_contract demoStorage (analyzeBody 1 scenarioText))) = 200 \<and>
   hasHighRisk scenarioText \<and>
   map_option (fa_riskLevel \<circ> analysis_fullAnalysis)
     (analysisOf (snd (post_analyze_contract demoStorage (analyzeBody 1 scenarioText)))) =
     Some (specMaxRiskLevel (map rc_riskLevel
        (getRiskyClausesByAnalysisId
           (fst (post_analyze_contract demoStorage (analyzeBody 1 scenarioText))) 5))) \<and>
   map rc_riskLevel
     (getRiskyClausesByAnalysisId
        (fst (post_analyze_contract demoStorage (analyzeBody 1 scenarioText))) 5) =
     [''high'', ''medium'']"
proof -
  have inv: "storageInv demoStorage"
    by (simp add: demoStorage_def storageInv_newMemStorage)
  have ok: "res_status (snd (post_analyze_contract demoStorage (analyzeBody 1 scenarioText))) = 200"
    by code_simp
  have tx: "ab_text (analyzeBody 1 scenarioText) = Some scenarioText"
    by (simp add: analyzeBody_def)
  have high: "hasHighRisk scenarioText" by code_simp
  have id1: "map_option analysis_id
     (analysisOf (snd (post_analyze_contract demoStorage (analyzeBody 1 scenarioText)))) = Some 5"
    by code_simp
  have recs: "map rc_riskLevel
     (getRiskyClausesByAnalysisId
        (fst (post_analyze_contract demoStorage (analyzeBody 1 scenarioText))) 5) =
     [''high'', ''medium'']"
    by code_simp
  from C3_level_is_maximum_of_records[OF inv ok tx disjI1[OF high]] obtain a where
    a: "snd (post_analyze_contract demoStorage (analyzeBody 1 scenarioText)) =
          respond 200 (AnalysisBody a)"
       "fa_riskLevel (analysis_fullAnalysis a) =
             specMaxRiskLevel (map rc_riskLevel
               (getRiskyClausesByAnalysisId
                  (fst (post_analyze_contract demoStorage (analyzeBody 1 scenarioText)))
                  (analysis_id a)))"
    by blast
  from id1 a(1) have "analysis_id a = 5"
    by (simp add: analysisOf_def respond_def)
  with a inv ok high recs show ?thesis
    by (simp add: analysisOf_def respond_def)
qed

subsection \<open>C4: one risky clause for each listed index\<close>

text \<open>
  C4, at the input where the source departs from it. For a text with the keyword
  \<open>liability\<close> the analysis lists the clause index 1, and the loop over the two mock
  clauses, whose clause indices are 0 and 3, stores no risky clause for it. In the demo
  data the analyses list the indices 1 and 3 and the risky clauses have these indices.
\<close>

theorem C4_listed_index_without_record:
  "map_option (\<lambda>a. (analysis_id a, analysis_riskyClauseIndices a))
     (analysisOf (snd (post_analyze_contract demoStorage
        (analyzeBody 2 ''Limitation of liability.'')))) = Some (5, [1]) \<and>
   length (getRiskyClausesByAnalysisId
     (fst (post_analyze_contract demoStorage
        (analyzeBody 2 ''Limitation of liability.''))) 5) = 0 \<and>
   map (\<lambda>a. (analysis_id a, analysis_riskyClauseIndices a)) (Map_values (analyses demoStorage)) =
     [(1, [1, 3]), (2, [1, 3]), (3, [1, 3]), (4, [1, 3])] \<and>
   map (\<lambda>c. (rc_analysisId c, rc_clauseIndex c)) (Map_values (riskyClauses demoStorage)) =
     [(1, 1), (1, 3), (3, 1), (3, 3), (4, 1), (4, 3)]"
  by code_simp

subsection \<open>C5: a question appends a pair of messages\<close>

text \<open>
  C5. Every call of POST /api/conversation/:id/message either succeeds (status 200) or
  leaves the storage as it was. When it succeeds, the conversation it names holds the
  messages it held before, unchanged and in their order, followed by one user message
  with the question and one assistant message with the answer, in that order: two
  messages more. The pair is written by the single call of \<open>updateConversation\<close>, so
  the storage never holds the user message without its answer.
\<close>

theorem C5_ask_appends_pair:
  "(res_status (snd (post_conversation_message s env idParam q)) = 200 \<and>
    (\<exists>i conv question.
       idParam = Some i \<and> q = Some question \<and> getConversation s i = Some conv \<and>
       getConversation (fst (post_conversation_message s env idParam q)) i =
         Some (conv\<lparr> conv_messages := conv_messages conv @
                   [\<lparr> msg_id = env_userMessageId env, msg_role = user,
                      msg_content = question, msg_timestamp = env_userTimestamp env \<rparr>,
                    \<lparr> msg_id = env_aiMessageId env, msg_role = assistant,
                      msg_content = answerContractQuestion (conv_contractId conv) question,
                      msg_timestamp = env_aiTimestamp env \<rparr>],
                 conv_updatedAt := Some (env_updatedAt env) \<rparr>) \<and>
       map_option (\<lambda>c. length (conv_messages c))
           (getConversation (fst (post_conversation_message s env idParam q)) i) =
         Some (length (conv_messages conv) + 2)))
   \<or> (res_status (snd (post_conversation_message s env idParam q)) \<noteq> 200 \<and>
       fst (post_conversation_message s env idParam q) = s)"
proof (cases "res_status (snd (post_conversation_message s env idParam q)) = 200")
  case False
  with message_failure[OF False] show ?thesis by simp
next
  case True
  from message_success_inputs[OF True] obtain i conv question where
    ok: "idParam = Some i" "q = Some question" "question \<noteq> []" "getConversation s i = Some conv"
    by blast
  have "getConversation (fst (post_conversation_message s env idParam q)) i =
         Some (conv\<lparr> conv_messages := conv_messages conv @
                   [\<lparr> msg_id = env_userMessageId env, msg_role = user,
                      msg_content = question, msg_timestamp = env_userTimestamp env \<rparr>,
                    \<lparr> msg_id = env_aiMessageId env, msg_role = assistant,
                      msg_content = answerContractQuestion (conv_contractId conv) question,
                      msg_timestamp = env_aiTimestamp env \<rparr>],
                 conv_updatedAt := Some (env_updatedAt env) \<rparr>)"
    by (simp add: ok message_success[OF ok(3,4)] getConversation_def Map_get_set_same)
  with True ok show ?thesis by simp
qed

theorem C5_ask_appends_pair_witness:
  "res_status (snd (post_conversation_message demoStorage demoEnv (Some 1)
       (Some ''Can they terminate early?''))) = 200 \<and>
   map_option (\<lambda>c. length (conv_messages c)) (getConversation demoStorage 1) = Some 4 \<and>
   map_option (\<lambda>c. map msg_role (conv_messages c))
     (getConversation (fst (post_conversation_message demoStorage demoEnv (Some 1)
       (Some ''Can they terminate early?''))) 1) =
     Some [user, assistant, user, assistant, user, assistant]"
proof -
  have ok: "res_status (snd (post_conversation_message demoStorage demoEnv (Some 1)
       (Some ''Can they terminate early?''))) = 200"
    by code_simp
  have before: "map_option (\<lambda>c. map msg_role (conv_messages c)) (getConversation demoStorage 1) =
       Some [user, assistant, user, assistant]"
    by code_simp
  from C5_ask_appends_pair[of demoStorage demoEnv "Some 1" "Some ''Can they terminate early?''"] ok
  obtain conv where
    c: "getConversation demoStorage 1 = Some conv" and
    c': "getConversation (fst (post_conversation_message demoStorage demoEnv (Some 1)
            (Some ''Can they terminate early?''))) 1 =
         Some (conv\<lparr> conv_messages := conv_messages conv @
                   [\<lparr> msg_id = env_userMessageId demoEnv, msg_role = user,
                      msg_content = ''Can they terminate early?'',
                      msg_timestamp = env_userTimestamp demoEnv \<rparr>,
                    \<lparr> msg_id = env_aiMessageId demoEnv, msg_role = assistant,
                      msg_content = answerContractQuestion (conv_contractId conv)
                         ''Can they terminate early?'',
                      msg_timestamp = env_aiTimestamp demoEnv \<rparr>],
                 conv_updatedAt := Some (env_updatedAt demoEnv) \<rparr>)"
    by auto
  from before c have roles: "map msg_role (conv_messages conv) = [user, assistant, user, assistant]"
    by simp
  from arg_cong[OF roles, of length] have "length (conv_messages conv) = 4"
    by simp
  with roles ok c c' show ?thesis by simp
qed

subsection \<open>C6: a question that is blank\<close>

text \<open>
  C6, counterexample. C6 expects the question of three spaces to be refused. The route
  tests \<open>!question\<close>, which holds of the empty string only: the answer is 200 and
  conversation 1 of the demo data goes from four messages to six.
\<close>

theorem C6_blank_question_counterexample:
  "res_status (snd (post_conversation_message demoStorage demoEnv (Some 1) (Some ''   ''))) = 200 \<and>
   map_option (length \<circ> conv_messages) (getConversation demoStorage 1) = Some 4 \<and>
   map_option (length \<circ> conv_messages)
     (getConversation
        (fst (post_conversation_message demoStorage demoEnv (Some 1) (Some ''   ''))) 1) = Some 6"
  by code_simp

text \<open>
  C6, as amended. When the question is absent or is the empty string, the route answers
  400 with the message \<open>Question is required\<close> and the storage is as it was, so that no
  message is appended.
\<close>

theorem C6_empty_question_rejected:
  assumes "q = None \<or> q = Some []"
  shows "post_conversation_message s env idParam q =
           (s, respond 400 (MessageBody ''Question is required''))"
  using assms by (auto simp: post_conversation_message_def)

theorem C6_empty_question_rejected_witness:
  "post_conversation_message demoStorage demoEnv (Some 1) (Some []) =
     (demoStorage, respond 400 (MessageBody ''Question is required''))"
  using C6_empty_question_rejected[of "Some []" demoStorage demoEnv "Some 1"]
  by simp

subsection \<open>C7: reading the analysis of a contract after a second analysis\<close>

text \<open>
  C7, at the input where the source departs from it. Contract 1 of the demo data has
  the analysis 1, of level \<open>high\<close>. A call of the route for contract 1 creates the
  analysis 5, of level \<open>medium\<close>, and keeps analysis 1. GET /api/analysis/contract/1
  then still answers with analysis 1: \<open>getAnalysisByContractId\<close> returns the first
  analysis of the contract in insertion order, the oldest one.
\<close>

theorem C7_read_after_reanalysis:
  "map_option analysis_id (analysisOf (get_analysis_contract demoStorage (Some 1))) = Some 1 \<and>
   map_option analysis_id
     (analysisOf (snd (post_analyze_contract demoStorage
        (analyzeBody 1 ''Payment is due within 30 days.'')))) = Some 5 \<and>
   map_option (\<lambda>a. (analysis_id a, fa_riskLevel (analysis_fullAnalysis a)))
     (analysisOf (get_analysis_contract
        (fst (post_analyze_contract demoStorage
           (analyzeBody 1 ''Payment is due within 30 days.''))) (Some 1))) = Some (1, ''high'') \<and>
   map_option (\<lambda>a. (analysis_contractId a, fa_riskLevel (analysis_fullAnalysis a)))
     (getAnalysis
        (fst (post_analyze_contract demoStorage
           (analyzeBody 1 ''Payment is due within 30 days.''))) 5) = Some (1, ''medium'')"
  by code_simp

subsection \<open>C8: the direct question and the question in a conversation\<close>

text \<open>
  C8. When POST /api/contract-qa answers 200 with an answer for a contract and a
  question, POST /api/conversation/:id/message for a conversation of that contract that
  has no message, with the same question, leaves the conversation with the user message
  of the question followed by the assistant message of that same answer.
\<close>

theorem C8_direct_answer_matches_ask:
  assumes "post_contract_qa s \<lparr> qa_contractId = Some cid, qa_question = Some question \<rparr> =
             respond 200 (AnswerBody answer)"
    and "getConversation s i = Some conv"
    and "conv_messages conv = []"
    and "conv_contractId conv = cid"
  shows "map_option (\<lambda>c. map (\<lambda>m. (msg_role m, msg_content m)) (conv_messages c))
           (getConversation (fst (post_conversation_message s env (Some i) (Some question))) i) =
         Some [(user, question), (assistant, answer)]"
proof -
  from qa_success_answer[OF assms(1)]
  have q: "question \<noteq> []" and a: "answer = answerContractQuestion cid question"
    by simp_all
  show ?thesis
    by (simp add: message_success[OF q assms(2)] getConversation_def Map_get_set_same
          assms(3,4) a)
qed

theorem C8_direct_answer_matches_ask_witness:
  "post_contract_qa demoStorageWithEmptyConversation
      \<lparr> qa_contractId = Some 1, qa_question = Some ''Can they terminate early?'' \<rparr> =
     respond 200 (AnswerBody answerTermination) \<and>
   map_option conv_messages (getConversation demoStorageWithEmptyConversation 2) = Some [] \<and>
   map_option conv_contractId (getConversation demoStorageWithEmptyConversation 2) = Some 1 \<and>
   map_option (\<lambda>c. map (\<lambda>m. (msg_role m, msg_content m)) (conv_messages c))
     (getConversation
        (fst (post_conversation_message demoStorageWithEmptyConversation demoEnv (Some 2)
           (Some ''Can they terminate early?''))) 2) =
     Some [(user, ''Can they terminate early?''), (assistant, answerTermination)]"
proof -
  have qa: "post_contract_qa demoStorageWithEmptyConversation
      \<lparr> qa_contractId = Some 1, qa_question = Some ''Can they terminate early?'' \<rparr> =
     respond 200 (AnswerBody answerTermination)"
    by code_simp
  have conv: "getConversation demoStorageWithEmptyConversation 2 =
      Some \<lparr> conv_id = 2, conv_userId = 1, conv_contractId = 1, conv_messages = [],
             conv_createdAt = Some ''2024-05-01T09:00:30.000Z'',
             conv_updatedAt = Some ''2024-05-01T09:00:30.000Z'' \<rparr>"
    by code_simp
  from C8_direct_answer_matches_ask[OF qa conv, of demoEnv] qa conv
  show ?thesis by simp
qed

subsection \<open>C9: the analysis is a function of the text\<close>

text \<open>
  C9. When a call of the route succeeds on a well-formed storage, the same request sent
  again succeeds too, and the two analyses have the same summary, the same risky clause
  indices, the same full analysis (level, reason, suggestions) and the same contract;
  only the identifier differs. The risky clauses stored for the two analyses say the
  same, their identifiers and the identifiers of their analyses apart. (The source has
  no segmentation into clauses; the stored risky clauses are the clauses of a run.)
\<close>

theorem C9_analysis_deterministic:
  assumes "storageInv s" and "res_status (snd (post_analyze_contract s body)) = 200"
  shows "\<exists>a1 a2.
          snd (post_analyze_contract s body) = respond 200 (AnalysisBody a1) \<and>
          snd (post_analyze_contract (fst (post_analyze_contract s body)) body) =
            respond 200 (AnalysisBody a2) \<and>
          analysis_summary a2 = analysis_summary a1 \<and>
          analysis_riskyClauseIndices a2 = analysis_riskyClauseIndices a1 \<and>
          analysis_fullAnalysis a2 = analysis_fullAnalysis a1 \<and>
          analysis_contractId a2 = analysis_contractId a1 \<and>
          analysis_id a2 = analysis_id a1 + 1 \<and>
          map clausePayload
            (getRiskyClausesByAnalysisId
               (fst (post_analyze_contract (fst (post_analyze_contract s body)) body))
               (analysis_id a2)) =
          map clausePayload
            (getRiskyClausesByAnalysisId (fst (post_analyze_contract s body)) (analysis_id a1))"
proof -
  let ?s1 = "fst (post_analyze_contract s body)"
  from analyze_success_inputs[OF assms(2)] obtain cid tx c where
    ok: "ab_contractId body = Some cid" "ab_text body = Some tx" "cid \<noteq> 0" "tx \<noteq> []"
        "getContract s cid = Some c"
    by blast
  have inv1: "storageInv ?s1" by (rule storageInv_analyze[OF assms(1)])
  have c1: "getContract ?s1 cid = Some c"
    using ok(5) by (simp add: getContract_def analyze_success_frame(1)[OF ok])
  have n1: "nextAnalysisId ?s1 = nextAnalysisId s + 1"
    by (rule analyze_success_frame(8)[OF ok])
  let ?a1 = "\<lparr> analysis_id = nextAnalysisId s, analysis_contractId = cid,
               analysis_summary = mockSummary,
               analysis_riskyClauseIndices = ar_riskyClauseIndices (analyzeContract tx []),
               analysis_fullAnalysis = ar_fullAnalysis (analyzeContract tx []) \<rparr>"
  let ?a2 = "?a1\<lparr> analysis_id := nextAnalysisId s + 1 \<rparr>"
  have r1: "snd (post_analyze_contract s body) = respond 200 (AnalysisBody ?a1)"
    by (simp add: analyze_success[OF ok])
  have r2: "snd (post_analyze_contract ?s1 body) = respond 200 (AnalysisBody ?a2)"
    by (simp add: analyze_success[OF ok(1-4) c1] n1)
  have st1: "map clausePayload (getRiskyClausesByAnalysisId ?s1 (nextAnalysisId s)) =
      map (\<lambda>ci. (ci_clauseIndex ci, ci_clauseText ci, ci_riskLevel ci, ci_explanation ci,
                  Some (ci_suggestion ci)))
        (filter (\<lambda>ci. ci_clauseIndex ci \<in> set (ar_riskyClauseIndices (analyzeContract tx [])))
           mockRiskyClauses)"
    by (simp only: analyze_success_stored[OF ok assms(1)] newClauseEntries_payload)
  have st2: "map clausePayload
        (getRiskyClausesByAnalysisId (fst (post_analyze_contract ?s1 body)) (nextAnalysisId s + 1)) =
      map (\<lambda>ci. (ci_clauseIndex ci, ci_clauseText ci, ci_riskLevel ci, ci_explanation ci,
                  Some (ci_suggestion ci)))
        (filter (\<lambda>ci. ci_clauseIndex ci \<in> set (ar_riskyClauseIndices (analyzeContract tx [])))
           mockRiskyClauses)"
    using analyze_success_stored[OF ok(1-4) c1 inv1]
    by (simp only: n1 newClauseEntries_payload)
  show ?thesis
    by (intro exI[of _ ?a1] exI[of _ ?a2]) (simp add: r1 r2 st1 st2)
qed

theorem C9_analysis_deterministic_witness:
  "storageInv demoStorage \<and>
   res_status (snd (post_analyze_contract demoStorage (analyzeBody 1 scenarioText))) = 200 \<and>
   map_option analysis_id
     (analysisOf (snd (post_analyze_contract demoStorage (analyzeBody 1 scenarioText)))) = Some 5 \<and>
   map_option analysis_id
     (analysisOf (snd (post_analyze_contract
        (fst (post_analyze_contract demoStorage (analyzeBody 1 scenarioText)))
        (analyzeBody 1 scenarioText)))) = Some 6 \<and>
   map_option (\<lambda>a. (analysis_summary a, analysis_riskyClauseIndices a, analysis_fullAnalysis a))
     (analysisOf (snd (post_analyze_contract
        (fst (post_analyze_contract demoStorage (analyzeBody 1 scenarioText)))
        (analyzeBody 1 scenarioText)))) =
   map_option (\<lambda>a. (analysis_summary a, analysis_riskyClauseIndices a, analysis_fullAnalysis a))
     (analysisOf (snd (post_analyze_contract demoStorage (analyzeBody 1 scenarioText)))) \<and>
   map clausePayload
     (getRiskyClausesByAnalysisId
        (fst (post_analyze_contract
           (fst (post_analyze_contract demoStorage (analyzeBody 1 scenarioText)))
           (analyzeBody 1 scenarioText))) 6) =
   map clausePayload
     (getRiskyClausesByAnalysisId
        (fst (post_analyze_contract demoStorage (analyzeBody 1 scenarioText))) 5)"
proof -
  have inv: "storageInv demoStorage"
    by (simp add: demoStorage_def storageInv_newMemStorage)
  have ok: "res_status (snd (post_analyze_contract demoStorage (analyzeBody 1 scenarioText))) = 200"
    by code_simp
  have id1: "map_option analysis_id
     (analysisOf (snd (post_analyze_contract demoStorage (analyzeBody 1 scenarioText)))) = Some 5"
    by code_simp
  from C9_analysis_deterministic[OF inv ok] obtain a1 a2 where
    r: "snd (post_analyze_contract demoStorage (analyzeBody 1 scenarioText)) =
          respond 200 (AnalysisBody a1)"
       "snd (post_analyze_contract
          (fst (post_analyze_contract demoStorage (analyzeBody 1 scenarioText)))
          (analyzeBody 1 scenarioText)) = respond 200 (AnalysisBody a2)"
    and e: "analysis_summary a2 = analysis_summary a1"
       "analysis_riskyClauseIndices a2 = analysis_riskyClauseIndices a1"
       "analysis_fullAnalysis a2 = analysis_fullAnalysis a1"
       "analysis_id a2 = analysis_id a1 + 1"
    and c: "map clausePayload
         (getRiskyClausesByAnalysisId
            (fst (post_analyze_contract
               (fst (post_analyze_contract demoStorage (analyzeBody 1 scenarioText)))
               (analyzeBody 1 scenarioText))) (analysis_id a2)) =
       map clausePayload
         (getRiskyClausesByAnalysisId
            (fst (post_analyze_contract demoStorage (analyzeBody 1 scenarioText))) (analysis_id a1))"
    by blast
  from id1 r(1) have a1: "analysis_id a1 = 5"
    by (simp add: analysisOf_def respond_def)
  with e(4) have a2: "analysis_id a2 = 6" by simp
  from c show ?thesis
    unfolding a1 a2 using inv ok e a1 a2
    by (simp add: r analysisOf_def respond_def)
qed

subsection \<open>C10: what a successful analysis writes\<close>

text \<open>
  C10. A successful call of the route on a well-formed storage leaves the map of
  contracts as it was, so the contract keeps its risk score. It calls \<open>updateUser\<close>
  with the identifier of the contract: if the map of users has this key, the user there
  gets the property \<open>riskScore\<close> with the computed score, and no other user changes.
  Saved clauses and conversations are as they were, and the analyses and risky clauses
  that were stored are followed by the new ones.
\<close>

theorem C10_analyze_merges_risk_score_into_user:
  assumes "storageInv s" and "res_status (snd (post_analyze_contract s body)) = 200"
  shows "\<exists>cid tx c a.
          ab_contractId body = Some cid \<and> ab_text body = Some tx \<and>
          getContract s cid = Some c \<and>
          contracts (fst (post_analyze_contract s body)) = contracts s \<and>
          getContract (fst (post_analyze_contract s body)) cid = Some c \<and>
          users (fst (post_analyze_contract s body)) =
            (case getUser s (contract_id c) of
               None \<Rightarrow> users s
             | Some u \<Rightarrow>
                 Map_set (users s) (contract_id c)
                   (u\<lparr> user_riskScore := Some (ar_riskScore (analyzeContract tx
                        (case ab_contractType body of None \<Rightarrow> [] | Some t \<Rightarrow> t))) \<rparr>)) \<and>
          savedClauses (fst (post_analyze_contract s body)) = savedClauses s \<and>
          conversations (fst (post_analyze_contract s body)) = conversations s \<and>
          analyses (fst (post_analyze_contract s body)) = analyses s @ [(nextAnalysisId s, a)] \<and>
          snd (post_analyze_contract s body) = respond 200 (AnalysisBody a) \<and>
          riskyClauses (fst (post_analyze_contract s body)) =
            riskyClauses s @
            newClauseEntries (nextRiskyClauseId s) (nextAnalysisId s)
              (filter (\<lambda>ci. ci_clauseIndex ci \<in> set (analysis_riskyClauseIndices a))
                 mockRiskyClauses)"
proof -
  from analyze_success_inputs[OF assms(2)] obtain cid tx c where
    ok: "ab_contractId body = Some cid" "ab_text body = Some tx" "cid \<noteq> 0" "tx \<noteq> []"
        "getContract s cid = Some c"
    by blast
  let ?a = "\<lparr> analysis_id = nextAnalysisId s, analysis_contractId = cid,
              analysis_summary = mockSummary,
              analysis_riskyClauseIndices = ar_riskyClauseIndices (analyzeContract tx []),
              analysis_fullAnalysis = ar_fullAnalysis (analyzeContract tx []) \<rparr>"
  have ct: "analyzeContract tx (case ab_contractType body of None \<Rightarrow> [] | Some t \<Rightarrow> t) =
            analyzeContract tx []"
    by (rule analyzeContract_contractType)
  have an: "analyses (fst (post_analyze_contract s body)) = analyses s @ [(nextAnalysisId s, ?a)]"
    by (simp only: analyze_success_frame(10)[OF ok] analyses_fresh[OF assms(1)])
  have r: "snd (post_analyze_contract s body) = respond 200 (AnalysisBody ?a)"
    by (simp add: analyze_success[OF ok])
  have rc: "riskyClauses (fst (post_analyze_contract s body)) =
            riskyClauses s @
            newClauseEntries (nextRiskyClauseId s) (nextAnalysisId s)
              (filter (\<lambda>ci. ci_clauseIndex ci \<in> set (analysis_riskyClauseIndices ?a))
                 mockRiskyClauses)"
    by (simp add: analyze_success_clauses(1)[OF ok assms(1)])
  show ?thesis
    apply (intro exI[of _ cid] exI[of _ tx] exI[of _ c] exI[of _ ?a])
    apply (simp only: ct an r rc ok analyze_success_frame(1,2,3,9)[OF ok] getContract_def)
    apply (simp add: ok(5)[unfolded getContract_def])
    done
qed

theorem C10_analyze_merges_risk_score_into_user_witness:
  "storageInv demoStorage \<and>
   res_status (snd (post_analyze_contract demoStorage
      (analyzeBody 1 ''Payment is due within 30 days.''))) = 200 \<and>
   map_option contract_riskScore (getContract demoStorage 1) = Some ''high'' \<and>
   map_option user_riskScore (getUser demoStorage 1) = Some None \<and>
   getContract (fst (post_analyze_contract demoStorage
      (analyzeBody 1 ''Payment is due within 30 days.''))) 1 = getContract demoStorage 1 \<and>
   contracts (fst (post_analyze_contract demoStorage
      (analyzeBody 1 ''Payment is due within 30 days.''))) = contracts demoStorage \<and>
   savedClauses (fst (post_analyze_contract demoStorage
      (analyzeBody 1 ''Payment is due within 30 days.''))) = savedClauses demoStorage \<and>
   conversations (fst (post_analyze_contract demoStorage
      (analyzeBody 1 ''Payment is due within 30 days.''))) = conversations demoStorage \<and>
   map_option user_riskScore
     (getUser (fst (post_analyze_contract demoStorage
        (analyzeBody 1 ''Payment is due within 30 days.''))) 1) = Some (Some ''medium'')"
proof -
  have inv: "storageInv demoStorage"
    by (simp add: demoStorage_def storageInv_newMemStorage)
  have ok: "res_status (snd (post_analyze_contract demoStorage
      (analyzeBody 1 ''Payment is due within 30 days.''))) = 200"
    by code_simp
  have before: "map_option contract_riskScore (getContract demoStorage 1) = Some ''high''"
    "map_option user_riskScore (getUser demoStorage 1) = Some None"
    by code_simp+
  have after: "map_option user_riskScore
     (getUser (fst (post_analyze_contract demoStorage
        (analyzeBody 1 ''Payment is due within 30 days.''))) 1) = Some (Some ''medium'')"
    by code_simp
  from C10_analyze_merges_risk_score_into_user[OF inv ok] obtain cid c where
    "ab_contractId (analyzeBody 1 ''Payment is due within 30 days.'') = Some cid"
    "getContract demoStorage cid = Some c"
    "contracts (fst (post_analyze_contract demoStorage
        (analyzeBody 1 ''Payment is due within 30 days.''))) = contracts demoStorage"
    "getContract (fst (post_analyze_contract demoStorage
        (analyzeBody 1 ''Payment is due within 30 days.''))) cid = Some c"
    "savedClauses (fst (post_analyze_contract demoStorage
        (analyzeBody 1 ''Payment is due within 30 days.''))) = savedClauses demoStorage"
    "conversations (fst (post_analyze_contract demoStorage
        (analyzeBody 1 ''Payment is due within 30 days.''))) = conversations demoStorage"
    by blast
  with inv ok before after show ?thesis
    by (simp add: analyzeBody_def)
qed

end
